theory Spec2Isabelle
  imports Main "HOL-Library.Sublist" "HOL-Library.AList"
begin

section \<open>Python values, exceptions and built-in operations\<close>

text \<open>
  The validator \<^verbatim>\<open>.ci/validate-examples.py\<close> works on documents parsed by \<^verbatim>\<open>json.load\<close>.
  A parsed document is a value of type \<open>json\<close>; an object keeps its keys in file order
  (keys are assumed distinct, as in a Python \<^verbatim>\<open>dict\<close>). Numbers are integers: a
  non-integral JSON number is outside the model. A Python \<^verbatim>\<open>str\<close> is a \<open>string\<close>, one
  \<open>char\<close> for each code point below 256.
\<close>

datatype json =
    JNull
  | JBool bool
  | JNum int
  | JStr string
  | JArr "json list"
  | JObj "(string \<times> json) list"

text \<open>
  Every exception the program can raise is a value. Only \<open>ValidationError\<close> carries its
  text, because only that text is read again (\<^verbatim>\<open>str(e)\<close> in the per-example loop).
\<close>

datatype error =
    ValidationError string
  | ValueError
  | KeyError string
  | TypeError
  | AttributeError
  | JSONDecodeError
  | FileNotFoundError
  | NotADirectoryError
  | IsADirectoryError
  | RequestException
  | CalledProcessError
  | SchemaError

definition and_then :: "error + 'a \<Rightarrow> ('a \<Rightarrow> error + 'b) \<Rightarrow> error + 'b" where
  "and_then r f = (case r of Inl e \<Rightarrow> Inl e | Inr v \<Rightarrow> f v)"

subsection \<open>Text\<close>

definition sq :: string where
  "sq = [CHR 0x27]"

definition nl :: string where
  "nl = [CHR 0x0A]"

text \<open>\<^verbatim>\<open>str(n)\<close> of an integer: its decimal digits, after a sign when it is negative.\<close>

definition digit :: "nat \<Rightarrow> char" where
  "digit d = ''0123456789'' ! d"

fun decimal :: "nat \<Rightarrow> string" where
  "decimal n = (if 10 \<le> n then decimal (n div 10) @ [digit (n mod 10)] else [digit n])"

declare decimal.simps [simp del]

definition str_of_int :: "int \<Rightarrow> string" where
  "str_of_int i = (if 0 \<le> i then decimal (nat i) else CHR ''-'' # decimal (nat (- i)))"

fun join_with :: "string \<Rightarrow> string list \<Rightarrow> string" where
  "join_with sep [] = []"
| "join_with sep [x] = x"
| "join_with sep (x # y # ys) = x @ sep @ join_with sep (y # ys)"

text \<open>\<^verbatim>\<open>s.startswith(p)\<close>, \<^verbatim>\<open>s.endswith(p)\<close>.\<close>

definition startswith :: "string \<Rightarrow> string \<Rightarrow> bool" where
  "startswith s p = prefix p s"

definition endswith :: "string \<Rightarrow> string \<Rightarrow> bool" where
  "endswith s p = prefix (rev p) (rev s)"

text \<open>
  \<^verbatim>\<open>re.search\<close> of a pattern without metacharacters, and \<^verbatim>\<open>p in s\<close> on two strings:
  \<open>p\<close> occurs somewhere in \<open>s\<close>.
\<close>

fun contains :: "string \<Rightarrow> string \<Rightarrow> bool" where
  "contains p [] = (p = [])"
| "contains p (c # cs) = (prefix p (c # cs) \<or> contains p cs)"

text \<open>
  \<^verbatim>\<open>s.split(sep)\<close> for a non-empty separator: the pieces between the occurrences of
  \<open>sep\<close>, found from the left without overlap. The counter is the number of characters of
  the occurrence just found that are still to be skipped.
\<close>

fun split_from :: "string \<Rightarrow> nat \<Rightarrow> string \<Rightarrow> string list" where
  "split_from sep k [] = [[]]"
| "split_from sep (Suc k) (c # cs) = split_from sep k cs"
| "split_from sep 0 (c # cs) =
     (if prefix sep (c # cs) then [] # split_from sep (length sep - 1) cs
      else (case split_from sep 0 cs of
              w # ws \<Rightarrow> (c # w) # ws
            | [] \<Rightarrow> [[c]]))"

definition py_split :: "string \<Rightarrow> string \<Rightarrow> string list" where
  "py_split s sep = split_from sep 0 s"

text \<open>
  \<^verbatim>\<open>s.rsplit(sep, 2)\<close> for a one-character separator: at most two splits, made from the
  right, so the first piece keeps every earlier separator.
\<close>

definition py_rsplit2 :: "string \<Rightarrow> string \<Rightarrow> string list" where
  "py_rsplit2 s sep =
     (let ps = py_split s sep; n = length ps
      in if n \<le> 3 then ps
         else [join_with sep (take (n - 2) ps), ps ! (n - 2), ps ! (n - 1)])"

text \<open>
  \<^verbatim>\<open>s.replace(old, new)\<close> for a non-empty \<open>old\<close>: every occurrence, from the left without
  overlap. The counter plays the same role as in \<open>split_from\<close>.
\<close>

fun replace_from :: "string \<Rightarrow> string \<Rightarrow> nat \<Rightarrow> string \<Rightarrow> string" where
  "replace_from old new k [] = []"
| "replace_from old new (Suc k) (c # cs) = replace_from old new k cs"
| "replace_from old new 0 (c # cs) =
     (if prefix old (c # cs) then new @ replace_from old new (length old - 1) cs
      else c # replace_from old new 0 cs)"

definition py_replace :: "string \<Rightarrow> string \<Rightarrow> string \<Rightarrow> string" where
  "py_replace s old new = replace_from old new 0 s"

subsection \<open>\<^verbatim>\<open>repr\<close> and \<^verbatim>\<open>str\<close>\<close>

definition hex2 :: "nat \<Rightarrow> string" where
  "hex2 n = [''0123456789abcdef'' ! (n div 16), ''0123456789abcdef'' ! (n mod 16)]"

definition printable :: "char \<Rightarrow> bool" where
  "printable c =
     (let n = (of_char c :: nat)
      in (32 \<le> n \<and> n \<le> 126) \<or> (161 \<le> n \<and> n \<le> 172) \<or> 174 \<le> n)"

definition repr_char :: "char \<Rightarrow> char \<Rightarrow> string" where
  "repr_char quote c =
     (if c = quote \<or> c = CHR 0x5C then [CHR 0x5C, c]
      else if c = CHR 0x09 then [CHR 0x5C, CHR ''t'']
      else if c = CHR 0x0A then [CHR 0x5C, CHR ''n'']
      else if c = CHR 0x0D then [CHR 0x5C, CHR ''r'']
      else if printable c then [c]
      else [CHR 0x5C, CHR ''x''] @ hex2 (of_char c))"

definition repr_str :: "string \<Rightarrow> string" where
  "repr_str s =
     (let quote = (if CHR 0x27 \<in> set s \<and> CHR 0x22 \<notin> set s then CHR 0x22 else CHR 0x27)
      in [quote] @ concat (map (repr_char quote) s) @ [quote])"

fun py_repr :: "json \<Rightarrow> string" where
  "py_repr JNull = ''None''"
| "py_repr (JBool b) = (if b then ''True'' else ''False'')"
| "py_repr (JNum i) = str_of_int i"
| "py_repr (JStr s) = repr_str s"
| "py_repr (JArr xs) = ''['' @ join_with '', '' (map py_repr xs) @ '']''"
| "py_repr (JObj kvs) =
     ''{'' @ join_with '', '' (map (\<lambda>(k, v). repr_str k @ '': '' @ py_repr v) kvs) @ ''}''"

text \<open>What an f-string field \<^verbatim>\<open>{x}\<close> inserts: \<^verbatim>\<open>str(x)\<close>.\<close>

definition py_str :: "json \<Rightarrow> string" where
  "py_str v = (case v of JStr s \<Rightarrow> s | _ \<Rightarrow> py_repr v)"

subsection \<open>Operations on parsed documents\<close>

text \<open>Truth value of a document, as \<^verbatim>\<open>if x\<close>, \<^verbatim>\<open>x or y\<close> and \<^verbatim>\<open>bool(x)\<close> take it.\<close>

fun truthy :: "json \<Rightarrow> bool" where
  "truthy JNull = False"
| "truthy (JBool b) = b"
| "truthy (JNum i) = (i \<noteq> 0)"
| "truthy (JStr s) = (s \<noteq> [])"
| "truthy (JArr xs) = (xs \<noteq> [])"
| "truthy (JObj kvs) = (kvs \<noteq> [])"

text \<open>\<^verbatim>\<open>a or b\<close>: the left operand when it is true, the right one otherwise.\<close>

definition py_or :: "json \<Rightarrow> json \<Rightarrow> json" where
  "py_or a b = (if truthy a then a else b)"

text \<open>\<^verbatim>\<open>x[k]\<close> with a string key.\<close>

fun py_getitem :: "json \<Rightarrow> string \<Rightarrow> error + json" where
  "py_getitem (JObj kvs) k = (case map_of kvs k of Some v \<Rightarrow> Inr v | None \<Rightarrow> Inl (KeyError k))"
| "py_getitem _ k = Inl TypeError"

text \<open>\<^verbatim>\<open>x.get(k, d)\<close>; \<^verbatim>\<open>x.get(k)\<close> is \<open>py_get x k JNull\<close>.\<close>

fun py_get :: "json \<Rightarrow> string \<Rightarrow> json \<Rightarrow> error + json" where
  "py_get (JObj kvs) k d = (case map_of kvs k of Some v \<Rightarrow> Inr v | None \<Rightarrow> Inr d)"
| "py_get _ k d = Inl AttributeError"

text \<open>\<^verbatim>\<open>k in x\<close> for a string \<open>k\<close>.\<close>

fun py_in :: "string \<Rightarrow> json \<Rightarrow> error + bool" where
  "py_in k (JObj kvs) = Inr (k \<in> set (map fst kvs))"
| "py_in k (JArr xs) = Inr (JStr k \<in> set xs)"
| "py_in k (JStr s) = Inr (contains k s)"
| "py_in k _ = Inl TypeError"

text \<open>\<^verbatim>\<open>len(x)\<close>.\<close>

fun py_len :: "json \<Rightarrow> error + nat" where
  "py_len (JObj kvs) = Inr (length kvs)"
| "py_len (JArr xs) = Inr (length xs)"
| "py_len (JStr s) = Inr (length s)"
| "py_len _ = Inl TypeError"

text \<open>The items a \<^verbatim>\<open>for\<close> loop or a generator sees in \<open>x\<close>.\<close>

fun py_iter :: "json \<Rightarrow> error + json list" where
  "py_iter (JObj kvs) = Inr (map (\<lambda>(k, v). JStr k) kvs)"
| "py_iter (JArr xs) = Inr xs"
| "py_iter (JStr s) = Inr (map (\<lambda>c. JStr [c]) s)"
| "py_iter _ = Inl TypeError"

text \<open>\<^verbatim>\<open>x > n\<close> for an integer \<open>n\<close>; \<^verbatim>\<open>True\<close> and \<^verbatim>\<open>False\<close> compare as 1 and 0.\<close>

fun py_gt :: "json \<Rightarrow> int \<Rightarrow> error + bool" where
  "py_gt (JNum i) n = Inr (i > n)"
| "py_gt (JBool b) n = Inr ((if b then 1 else 0) > n)"
| "py_gt _ n = Inl TypeError"

text \<open>\<^verbatim>\<open>"".join(x)\<close>: every item must be a string.\<close>

fun join_items :: "json list \<Rightarrow> error + string" where
  "join_items [] = Inr []"
| "join_items (JStr s # xs) = and_then (join_items xs) (\<lambda>r. Inr (s @ r))"
| "join_items (_ # xs) = Inl TypeError"

definition py_join :: "json \<Rightarrow> error + string" where
  "py_join x = and_then (py_iter x) join_items"

section \<open>The error collection\<close>

text \<open>
  The run state: what has been printed (one entry for each call of \<^verbatim>\<open>print\<close>, which
  writes its argument and a line break) and \<^verbatim>\<open>ErrorCollection._errors\<close>.
\<close>

record state =
  stdout :: "string list"
  errors :: "string list"

definition print :: "string \<Rightarrow> state \<Rightarrow> state" where
  "print line s = s\<lparr>stdout := stdout s @ [line]\<rparr>"

definition add :: "string \<Rightarrow> state \<Rightarrow> state" where
  "add error s = s\<lparr>errors := errors s @ [error]\<rparr>"

definition num_errors :: "state \<Rightarrow> nat" where
  "num_errors s = length (errors s)"

text \<open>The loop of \<^verbatim>\<open>report\<close>: the counter \<open>i\<close> and the errors still to print.\<close>

fun report_loop :: "nat \<Rightarrow> string list \<Rightarrow> state \<Rightarrow> state" where
  "report_loop i [] s = s"
| "report_loop i (error # rest) s =
     report_loop (i + 1) rest (print (decimal i @ ''. '' @ error) s)"

text \<open>
  \<^verbatim>\<open>sys.exit(n)\<close> for an integer \<open>n\<close> that is not negative ends the process. The exit status
  of a process is one byte: the parent and the shell see \<open>n\<close> modulo 256, so that
  \<^verbatim>\<open>sys.exit(256)\<close> ends with status 0.
\<close>

definition sys_exit :: "nat \<Rightarrow> int" where
  "sys_exit n = int (n mod 256)"

text \<open>
  \<^verbatim>\<open>report\<close> prints and ends the process with \<^verbatim>\<open>sys.exit(self.num_errors)\<close>: the result
  is everything printed and the exit status of the process.
\<close>

definition report :: "state \<Rightarrow> string list \<times> int" where
  "report s =
     (let s1 = print (nl @ ''------ check results ------'' @ nl) s;
          s2 = print (decimal (num_errors s1) @ '' errors found checking examples'' @ nl) s1;
          s3 = report_loop 1 (errors s2) s2
      in (stdout s3, sys_exit (num_errors s3)))"

section \<open>Linting a notebook code cell\<close>

definition warnings_filter_msg :: "string \<Rightarrow> string" where
  "warnings_filter_msg file_name =
     ''Found use of warnings.simplefilter() or warnings.filterwarnings() in '' @ file_name @ ''. ''
     @ ''Do not filter out warnings in example notebooks. Try to fix them or ''
     @ ''add text explaining why they can be safely ignored.''"

definition delayed_msg :: "string \<Rightarrow> string" where
  "delayed_msg file_name =
     ''Found a use of '' @ sq @ ''@delayed'' @ sq @ '' in '' @ file_name @ ''. ''
     @ ''Instead, '' @ sq @ ''import dask'' @ sq @ '' and then use '' @ sq @ ''@dask.delayed'' @ sq @ ''.''"

text \<open>
  \<^verbatim>\<open>WARNING_FILTER_REGEX\<close> is \<^verbatim>\<open>.*warnings\.filter.*\<close>: under \<^verbatim>\<open>re.search\<close> it matches
  exactly when the text \<^verbatim>\<open>warnings.filter\<close> occurs, since both \<^verbatim>\<open>.*\<close> may match nothing.
\<close>

definition lint_python_cell :: "string \<Rightarrow> json \<Rightarrow> error + string list" where
  "lint_python_cell file_name code_lines =
     and_then (py_join code_lines) (\<lambda>code_str.
       let errors1 = (if contains ''warnings.filter'' code_str
                      then [warnings_filter_msg file_name] else []);
           errors2 = (if contains ''@delayed'' code_str
                      then errors1 @ [delayed_msg file_name] else errors1)
       in Inr errors2)"

section \<open>Paths and the file system\<close>

text \<open>\<^verbatim>\<open>os.path.join(a, b)\<close>, \<^verbatim>\<open>os.path.basename(p)\<close> and \<^verbatim>\<open>os.path.normpath(p)\<close> of \<^verbatim>\<open>posixpath\<close>.\<close>

definition os_path_join :: "string \<Rightarrow> string \<Rightarrow> string" where
  "os_path_join a b =
     (if startswith b ''/'' then b
      else if a = [] \<or> endswith a ''/'' then a @ b
      else a @ ''/'' @ b)"

definition basename :: "string \<Rightarrow> string" where
  "basename p = rev (takeWhile (\<lambda>c. c \<noteq> CHR ''/'') (rev p))"

definition normpath_step :: "nat \<Rightarrow> string list \<Rightarrow> string \<Rightarrow> string list" where
  "normpath_step initial_slashes new_comps part =
     (if part = [] \<or> part = ''.'' then new_comps
      else if part \<noteq> ''..'' \<or> (initial_slashes = 0 \<and> new_comps = [])
              \<or> (new_comps \<noteq> [] \<and> last new_comps = ''..'')
           then new_comps @ [part]
      else if new_comps \<noteq> [] then butlast new_comps
      else new_comps)"

definition normpath :: "string \<Rightarrow> string" where
  "normpath p =
     (if p = [] then ''.''
      else
        let initial_slashes =
              (if \<not> startswith p ''/'' then 0
               else if startswith p ''//'' \<and> \<not> startswith p ''///'' then 2 else (1::nat));
            comps = foldl (normpath_step initial_slashes) [] (py_split p ''/'');
            path = replicate initial_slashes CHR ''/'' @ join_with ''/'' comps
        in if path = [] then ''.'' else path)"

text \<open>
  The file system is a tree. A file holds what \<^verbatim>\<open>json.load\<close> makes of its content
  (\<open>None\<close> when the content is not JSON); a directory holds its entries in the order in
  which the operating system lists them. Entry names are assumed non-empty, distinct, without
  \<^verbatim>\<open>/\<close> and other than \<^verbatim>\<open>.\<close> and \<^verbatim>\<open>..\<close>. Symbolic links and permissions are not modelled.
\<close>

datatype fsnode =
    File "json option"
  | Dir "(string \<times> fsnode) list"

text \<open>
  Path resolution walks the components of a path from the root of the tree, which stands
  for the working directory and for \<^verbatim>\<open>/\<close> at once. The walk keeps the directories it came
  through, for \<^verbatim>\<open>..\<close>. Every component, also an empty one or \<^verbatim>\<open>.\<close>, needs a directory to
  be looked up in.
\<close>

fun walk :: "fsnode \<Rightarrow> fsnode list \<Rightarrow> string list \<Rightarrow> (fsnode \<times> fsnode list) option" where
  "walk cur up [] = Some (cur, up)"
| "walk (File content) up (c # cs) = None"
| "walk (Dir es) up (c # cs) =
     (if c = [] \<or> c = ''.'' then walk (Dir es) up cs
      else if c = ''..'' then
        (case up of [] \<Rightarrow> walk (Dir es) [] cs | parent # up' \<Rightarrow> walk parent up' cs)
      else
        (case map_of es c of
           None \<Rightarrow> None
         | Some child \<Rightarrow> walk child (Dir es # up) cs))"

definition resolve :: "fsnode \<Rightarrow> string \<Rightarrow> fsnode option" where
  "resolve root p =
     (if p = [] then None else map_option fst (walk root [] (py_split p ''/'')))"

definition isdir :: "fsnode \<Rightarrow> string \<Rightarrow> bool" where
  "isdir root p = (case resolve root p of Some (Dir es) \<Rightarrow> True | _ \<Rightarrow> False)"

definition isfile :: "fsnode \<Rightarrow> string \<Rightarrow> bool" where
  "isfile root p = (case resolve root p of Some (File content) \<Rightarrow> True | _ \<Rightarrow> False)"

definition exists_path :: "fsnode \<Rightarrow> string \<Rightarrow> bool" where
  "exists_path root p = (resolve root p \<noteq> None)"

definition listdir :: "fsnode \<Rightarrow> string \<Rightarrow> error + string list" where
  "listdir root p =
     (case resolve root p of
        None \<Rightarrow> Inl FileNotFoundError
      | Some (File content) \<Rightarrow> Inl NotADirectoryError
      | Some (Dir es) \<Rightarrow> Inr (map fst es))"

text \<open>\<^verbatim>\<open>open(p)\<close> followed by \<^verbatim>\<open>json.load\<close>.\<close>

definition load_json :: "fsnode \<Rightarrow> string \<Rightarrow> error + json" where
  "load_json root p =
     (case resolve root p of
        None \<Rightarrow> Inl FileNotFoundError
      | Some (Dir es) \<Rightarrow> Inl IsADirectoryError
      | Some (File None) \<Rightarrow> Inl JSONDecodeError
      | Some (File (Some doc)) \<Rightarrow> Inr doc)"

text \<open>
  \<^verbatim>\<open>glob.glob(f"{d}/**", recursive=True)\<close> and \<^verbatim>\<open>glob.glob(f"{d}/**", recursive=False)\<close>
  for a path \<open>d\<close> that does not end in \<^verbatim>\<open>/\<close> and has none of the characters \<^verbatim>\<open>*?[\<close>.

  With \<^verbatim>\<open>recursive=True\<close> the pattern \<^verbatim>\<open>**\<close> matches zero or more path segments: when \<open>d\<close>
  is a directory the first result is \<open>d\<close> itself, written with a final \<^verbatim>\<open>/\<close> (the join of
  \<open>d\<close> and the empty name), followed by everything below \<open>d\<close>, each directory before its
  content. With \<^verbatim>\<open>recursive=False\<close> the pattern is the same as \<^verbatim>\<open>*\<close>: the entries of \<open>d\<close>.
  Names that begin with a dot are never matched, and what is below them is not visited.
\<close>

definition ishidden :: "string \<Rightarrow> bool" where
  "ishidden x = startswith x ''.''"

fun rlistdir :: "fsnode \<Rightarrow> string list" where
  "rlistdir (File content) = []"
| "rlistdir (Dir es) =
     concat (map (\<lambda>(x, child).
                    if ishidden x then [] else x # map (os_path_join x) (rlistdir child)) es)"

definition glob_recursive :: "fsnode \<Rightarrow> string \<Rightarrow> string list" where
  "glob_recursive root d =
     (case resolve root d of
        Some (Dir es) \<Rightarrow> map (os_path_join d) ([] # rlistdir (Dir es))
      | _ \<Rightarrow> [])"

definition glob_flat :: "fsnode \<Rightarrow> string \<Rightarrow> string list" where
  "glob_flat root d =
     (case resolve root d of
        Some (Dir es) \<Rightarrow> map (os_path_join d) (filter (\<lambda>x. \<not> ishidden x) (map fst es))
      | _ \<Rightarrow> [])"

text \<open>
  \<^verbatim>\<open>bool(re.search(r, name))\<close> for the two name patterns, \<^verbatim>\<open>^[0-9a-z\-]+$\<close> and
  \<^verbatim>\<open>^[0-9A-Za-z\-\.\_]+$\<close>: one or more characters of the class, from the start of the
  name to its end. In Python \<^verbatim>\<open>$\<close> also matches just before a line break that ends the
  text.
\<close>

definition search_class :: "string \<Rightarrow> string \<Rightarrow> bool" where
  "search_class cls name =
     (let body = (if name \<noteq> [] \<and> last name = CHR 0x0A then butlast name else name)
      in body \<noteq> [] \<and> list_all (\<lambda>c. c \<in> set cls) body)"

definition DIRECTORY_REGEX :: "string \<Rightarrow> bool" where
  "DIRECTORY_REGEX = search_class ''0123456789abcdefghijklmnopqrstuvwxyz-''"

definition FILENAME_REGEX :: "string \<Rightarrow> bool" where
  "FILENAME_REGEX =
     search_class ''0123456789ABCDEFGHIJKLMNOPQRSTUVWXYZabcdefghijklmnopqrstuvwxyz-._''"

section \<open>The run's inputs\<close>

text \<open>
  A template catalog entry is read through four fields: \<^verbatim>\<open>title\<close>, \<^verbatim>\<open>weight\<close>,
  \<^verbatim>\<open>thumbnail_image_url\<close> and \<^verbatim>\<open>recipe_path\<close>; the weight is an integer, the others are
  strings.
\<close>

record template =
  title :: string
  weight :: int
  thumbnail_image_url :: string
  recipe_path :: string

text \<open>
  Everything the run reads from outside: the two command-line options, the file tree, and
  the answers of the network and of the \<^verbatim>\<open>aws\<close> command line. An answer is an exception
  or a value.
  \<^item> \<open>recipe_schema\<close>: the read of the file \<^verbatim>\<open>RECIPE_SCHEMA_VERSION\<close>, the GET of
    \<^verbatim>\<open>RECIPE_SCHEMA_URL\<close> and \<^verbatim>\<open>res.json()\<close>. The schema is represented by what
    \<^verbatim>\<open>jsonschema.validate\<close> does with it on a document: nothing, or an exception.
  \<^item> \<open>instance_types\<close>: the GET of \<^verbatim>\<open>INSTANCE_TYPE_OPTIONS_URL\<close> and the keys of the
    \<^verbatim>\<open>tiers\<close> mapping of that YAML document.
  \<^item> \<open>templates_json\<close>: for the name of a catalog, the \<^verbatim>\<open>templates\<close> list of the file of
    that name in \<^verbatim>\<open>.saturn\<close> beside the examples directory.
  \<^item> \<open>requests_get\<close>: the status code of a GET.
  \<^item> \<open>docker_hub_token\<close>: the GET of the Docker Hub token URL, \<^verbatim>\<open>raise_for_status\<close> and
    the \<^verbatim>\<open>token\<close> of the answer.
  \<^item> \<open>ecr_public_token\<close>: the output of \<^verbatim>\<open>aws ecr-public get-authorization-token\<close>.
  \<^item> \<open>requests_head\<close>: the status code of a HEAD sent with the given headers.
\<close>

record env =
  EXAMPLES_DIR :: string
  SKIP_IMAGE_CHECK :: bool
  root :: fsnode
  recipe_schema :: "error + (json \<Rightarrow> error option)"
  instance_types :: "error + string list"
  templates_json :: "string \<Rightarrow> error + template list"
  requests_get :: "string \<Rightarrow> error + nat"
  docker_hub_token :: "string \<Rightarrow> error + string"
  ecr_public_token :: "error + string"
  requests_head :: "string \<Rightarrow> (string \<times> string) list \<Rightarrow> error + nat"

definition ADMIN_DIRS :: "string list" where
  "ADMIN_DIRS = [''_img'']"

definition SATURN_DIR_NAME :: string where
  "SATURN_DIR_NAME = ''.saturn''"

definition SATURN_JSON_NAME :: string where
  "SATURN_JSON_NAME = ''saturn.json''"

definition TEMPLATES_JSON_NAMES :: "string list" where
  "TEMPLATES_JSON_NAMES = [''templates-hosted.json'', ''templates-enterprise.json'']"

definition INSTANCE_TYPE_OPTIONS_URL :: string where
  "INSTANCE_TYPE_OPTIONS_URL = ''https://saturncloud.io/static/constants.yaml''"

section \<open>The registry existence check\<close>

definition manifest_status :: "env \<Rightarrow> string \<Rightarrow> string \<Rightarrow> string \<Rightarrow> (string \<times> string) list \<Rightarrow> error + bool" where
  "manifest_status e registry image_name image_tag headers =
     and_then
       (requests_head e (''https://'' @ registry @ ''/v2/'' @ image_name @ ''/manifests/'' @ image_tag)
          headers)
       (\<lambda>status_code. Inr (status_code = 200))"

definition image_exists_on_registry :: "env \<Rightarrow> string option \<Rightarrow> string \<Rightarrow> string \<Rightarrow> error + bool" where
  "image_exists_on_registry e registry image_name image_tag =
     (let headers = [(''Accept'', ''application/vnd.docker.distribution.manifest.v2+json'')]
      in case registry of
           None \<Rightarrow>
             and_then
               (docker_hub_token e (''https://auth.docker.io/token?scope=repository:'' @ image_name
                                    @ '':pull&service=registry.docker.io''))
               (\<lambda>token. manifest_status e ''registry-1.docker.io'' image_name image_tag
                           (headers @ [(''Authorization'', ''Bearer '' @ token)]))
         | Some r \<Rightarrow>
             if r = ''docker.io'' then
               and_then
                 (docker_hub_token e (''https://auth.docker.io/token?scope=repository:'' @ image_name
                                      @ '':pull&service=registry.docker.io''))
                 (\<lambda>token. manifest_status e ''registry-1.docker.io'' image_name image_tag
                             (headers @ [(''Authorization'', ''Bearer '' @ token)]))
             else if r = ''public.ecr.aws'' then
               and_then (ecr_public_token e)
                 (\<lambda>token. manifest_status e r image_name image_tag
                             (headers @ [(''Authorization'', ''Bearer '' @ token)]))
             else manifest_status e r image_name image_tag headers)"

section \<open>Validating a recipe\<close>

text \<open>\<^verbatim>\<open>recipe["name"]\<close> must start with \<^verbatim>\<open>example-\<close>.\<close>

definition check_name :: "json \<Rightarrow> error + unit" where
  "check_name recipe =
     and_then (py_getitem recipe ''name'') (\<lambda>name_pre.
       case name_pre of
         JStr n \<Rightarrow>
           if \<not> startswith n ''example-''
           then Inl (ValidationError
                  (''name ('' @ sq @ n @ sq @ '') needs to start with example-''))
           else Inr ()
       | _ \<Rightarrow> Inl AttributeError)"

text \<open>
  \<^verbatim>\<open>image_name, image_tag = image_uri.split(":")\<close>: the assignment takes a list of exactly
  two pieces and raises \<^verbatim>\<open>ValueError\<close> on any other.
\<close>

definition split_image_uri :: "json \<Rightarrow> error + string \<times> string" where
  "split_image_uri recipe =
     and_then (py_getitem recipe ''image_uri'') (\<lambda>image_uri.
       case image_uri of
         JStr u \<Rightarrow>
           (case py_split u '':'' of
              [image_name, image_tag] \<Rightarrow> Inr (image_name, image_tag)
            | _ \<Rightarrow> Inl ValueError)
       | _ \<Rightarrow> Inl AttributeError)"

definition check_image :: "env \<Rightarrow> string \<Rightarrow> string \<Rightarrow> error + unit" where
  "check_image e image_name image_tag =
     (if \<not> SKIP_IMAGE_CHECK e then
        let image_pieces = py_rsplit2 image_name ''/'';
            image_registry = (if length image_pieces = 3 then Some (image_pieces ! 0) else None);
            image_repository = (if length image_pieces = 3
                                then image_pieces ! 1 @ ''/'' @ image_pieces ! 2
                                else image_name)
        in and_then (image_exists_on_registry e image_registry image_repository image_tag)
             (\<lambda>image_exists.
                if \<not> image_exists
                then Inl (ValidationError
                       (''image '' @ sq @ image_name @ '':'' @ image_tag @ sq
                        @ '' is not available on Docker Hub.''))
                else Inr ())
      else Inr ())"

definition working_dir_prefix :: string where
  "working_dir_prefix = ''/home/jovyan/examples/examples/''"

definition check_working_directory :: "env \<Rightarrow> json \<Rightarrow> string \<Rightarrow> error + unit" where
  "check_working_directory e recipe example_dir =
     and_then (py_getitem recipe ''working_directory'') (\<lambda>wd.
       case wd of
         JStr working_dir \<Rightarrow>
           if \<not> startswith working_dir working_dir_prefix
           then Inl (ValidationError
                  (''working_directory ('' @ sq @ working_dir @ sq @ '') needs to start with ''
                   @ working_dir_prefix))
           else
             let working_dir_suffix = py_replace working_dir working_dir_prefix []
             in if \<not> working_dir_suffix = example_dir
                then Inl (ValidationError
                       (''working_directory ('' @ sq @ working_dir @ sq @ '') needs to end with ''
                        @ ''the name of the example directory: '' @ example_dir))
                else
                  let rel_path = py_replace working_dir working_dir_prefix [];
                      abs_path = os_path_join (EXAMPLES_DIR e) rel_path
                  in if \<not> exists_path (root e) abs_path
                     then Inl (ValidationError
                            (''working_directory ('' @ sq @ working_dir @ sq
                             @ '') needs to point to a real path''))
                     else Inr ()
       | _ \<Rightarrow> Inl AttributeError)"

text \<open>\<^verbatim>\<open>all("path" in repo for repo in git_repositories)\<close> stops at the first item without.\<close>

fun all_have :: "string \<Rightarrow> json list \<Rightarrow> error + bool" where
  "all_have k [] = Inr True"
| "all_have k (x # xs) = and_then (py_in k x) (\<lambda>b. if b then all_have k xs else Inr False)"

definition check_git_repositories :: "json \<Rightarrow> error + unit" where
  "check_git_repositories recipe =
     and_then (py_getitem recipe ''git_repositories'') (\<lambda>git_repositories.
     and_then (py_len git_repositories) (\<lambda>n.
       if n < 1 then Inl (ValidationError ''git_repositories cannot be empty'')
       else
         and_then (py_iter git_repositories) (\<lambda>repos.
         and_then (all_have ''path'' repos) (\<lambda>ok.
           if \<not> ok
           then Inl (ValidationError
                  (''At least one git_repository is missing a path '' @ py_str git_repositories))
           else Inr ()))))"

text \<open>
  \<^verbatim>\<open>x not in instance_type_options\<close>: the options are the keys of a mapping, all of them
  strings. A list or an object cannot be hashed, so the test raises on it; any other value
  that is not a string is no key.
\<close>

fun in_options :: "json \<Rightarrow> string list \<Rightarrow> error + bool" where
  "in_options (JStr t) options = Inr (t \<in> set options)"
| "in_options (JArr xs) options = Inl TypeError"
| "in_options (JObj kvs) options = Inl TypeError"
| "in_options _ options = Inr False"

definition instance_type_msg :: "json \<Rightarrow> string" where
  "instance_type_msg instance_type =
     ''instance_type ('' @ sq @ py_str instance_type @ sq @ '') is not a valid option. ''
     @ ''Look at '' @ INSTANCE_TYPE_OPTIONS_URL @ '' for valid options.''"

definition too_many_workers_msg :: string where
  "too_many_workers_msg = ''there should not be more than 3 workers per dask cluster.''"

definition worker_mismatch_msg :: string where
  "worker_mismatch_msg =
     ''Dask worker instance type should match the instance type ''
     @ ''of its attached jupyter_server or deployment''"

definition disk_space_msg :: string where
  "disk_space_msg = ''disk_space is required for workspaces.''"

text \<open>
  The \<^verbatim>\<open>dask_cluster\<close> block. The worker's instance type is compared with a value that
  passed \<open>in_options\<close>, hence with a string, on which \<^verbatim>\<open>!=\<close> is plain inequality.
\<close>

definition check_dask_cluster :: "json \<Rightarrow> json \<Rightarrow> error + unit" where
  "check_dask_cluster recipe resource =
     and_then (py_get recipe ''dask_cluster'' JNull) (\<lambda>present.
       if truthy present then
         and_then (py_getitem recipe ''dask_cluster'') (\<lambda>dask_cluster.
         and_then (py_getitem dask_cluster ''num_workers'') (\<lambda>num_workers.
         and_then (py_gt num_workers 3) (\<lambda>too_many.
           if too_many then Inl (ValidationError too_many_workers_msg)
           else
             and_then (py_getitem dask_cluster ''worker'') (\<lambda>worker.
             and_then (py_getitem worker ''instance_type'') (\<lambda>worker_type.
             and_then (py_getitem resource ''instance_type'') (\<lambda>resource_type.
               if worker_type \<noteq> resource_type
               then Inl (ValidationError worker_mismatch_msg)
               else Inr ()))))))
       else Inr ())"

definition check_disk_space :: "json \<Rightarrow> error + unit" where
  "check_disk_space workspace =
     (if workspace \<noteq> JNull then
        and_then (py_in ''disk_space'' workspace) (\<lambda>has.
          if \<not> has then Inl (ValidationError disk_space_msg) else Inr ())
      else Inr ())"

text \<open>
  Lines 128 to 133: \<^verbatim>\<open>resource = jupyter or deployment or job or rstudio\<close> and
  \<^verbatim>\<open>workspace = jupyter or rstudio\<close>.
\<close>

definition select_resource :: "json \<Rightarrow> error + json \<times> json" where
  "select_resource recipe =
     and_then (py_get recipe ''jupyter_server'' JNull) (\<lambda>jupyter.
     and_then (py_get recipe ''deployment'' JNull) (\<lambda>deployment.
     and_then (py_get recipe ''job'' JNull) (\<lambda>job.
     and_then (py_get recipe ''rstudio_server'' JNull) (\<lambda>rstudio.
       Inr (py_or (py_or (py_or jupyter deployment) job) rstudio, py_or jupyter rstudio)))))"

definition check_instance_type :: "string list \<Rightarrow> json \<Rightarrow> error + unit" where
  "check_instance_type instance_type_options resource =
     and_then (py_getitem resource ''instance_type'') (\<lambda>instance_type.
     and_then (in_options instance_type instance_type_options) (\<lambda>valid.
       if \<not> valid then Inl (ValidationError (instance_type_msg instance_type))
       else Inr ()))"

text \<open>Lines 128 to 152: the workload, its instance type, the cluster, the disk space.\<close>

definition check_resources :: "string list \<Rightarrow> json \<Rightarrow> error + unit" where
  "check_resources instance_type_options recipe =
     and_then (select_resource recipe) (\<lambda>(resource, workspace).
     and_then (check_instance_type instance_type_options resource) (\<lambda>u.
     and_then (check_dask_cluster recipe resource) (\<lambda>u.
       check_disk_space workspace)))"

text \<open>
  \<^verbatim>\<open>validate_recipe(schema, instance_type_options, recipe_path, example_dir)\<close>. The first
  failing step ends it.
\<close>

definition validate_recipe ::
    "env \<Rightarrow> (json \<Rightarrow> error option) \<Rightarrow> string list \<Rightarrow> string \<Rightarrow> string \<Rightarrow> error + unit" where
  "validate_recipe e schema instance_type_options recipe_path' example_dir =
     and_then (load_json (root e) recipe_path') (\<lambda>recipe.
       case schema recipe of
         Some err \<Rightarrow> Inl err
       | None \<Rightarrow>
           and_then (check_name recipe) (\<lambda>u.
           and_then (split_image_uri recipe) (\<lambda>(image_name, image_tag).
           and_then (check_image e image_name image_tag) (\<lambda>u.
           and_then (check_working_directory e recipe example_dir) (\<lambda>u.
           and_then (check_git_repositories recipe) (\<lambda>u.
             check_resources instance_type_options recipe))))))"

section \<open>The template catalogs\<close>

definition thumbnail_msg :: "template \<Rightarrow> string" where
  "thumbnail_msg t =
     ''Thumbnail image ('' @ thumbnail_image_url t @ '') for '' @ title t @ '' is not a valid url.''"

definition weight_msg :: "template \<Rightarrow> string list \<Rightarrow> string" where
  "weight_msg t matches =
     ''Weight ('' @ str_of_int (weight t) @ '') for '' @ sq @ title t @ sq
     @ '' is non-unique. It matches '' @ py_repr (JArr (map JStr matches)) @ ''.''"

definition missing_example_msg :: "string \<Rightarrow> template \<Rightarrow> string" where
  "missing_example_msg example_dir t =
     ''Example directory: '' @ sq @ example_dir @ sq @ '' referenced by template: '' @ sq
     @ title t @ sq @ '' does not exist.''"

text \<open>\<^verbatim>\<open>template["recipe_path"].split("examples/")[-1].split("/")[0]\<close>.\<close>

definition example_dir_of :: "template \<Rightarrow> string" where
  "example_dir_of t = hd (py_split (last (py_split (recipe_path t) ''examples/'')) ''/'')"

text \<open>
  The loop over the templates of one catalog. \<open>weights\<close> is the dictionary from titles to
  weights, in insertion order. When the status of the thumbnail is not 200 the source
  assigns \<open>thumbnail_msg\<close> to \<^verbatim>\<open>msg\<close> and does nothing with it: the state is unchanged.
\<close>

fun check_templates ::
    "env \<Rightarrow> string list \<Rightarrow> (string \<times> int) list \<Rightarrow> template list \<Rightarrow> state \<Rightarrow> error + state" where
  "check_templates e example_dirs weights [] s = Inr s"
| "check_templates e example_dirs weights (t # ts) s =
     and_then (requests_get e (thumbnail_image_url t)) (\<lambda>status_code.
       let s1 = (if \<not> status_code = 200 then s else s);
           matches = map fst (filter (\<lambda>(key, v). weight t = v) weights);
           s2 = (if matches \<noteq> [] then add (weight_msg t matches) s1 else s1);
           weights' = AList.update (title t) (weight t) weights;
           example_dir = example_dir_of t;
           s3 = (if example_dir \<notin> set example_dirs
                 then add (missing_example_msg example_dir t) s2 else s2)
       in check_templates e example_dirs weights' ts s3)"

text \<open>The loop over \<^verbatim>\<open>TEMPLATES_JSON_NAMES\<close>: each catalog starts from an empty dictionary.\<close>

fun check_catalogs :: "env \<Rightarrow> string list \<Rightarrow> string list \<Rightarrow> state \<Rightarrow> error + state" where
  "check_catalogs e example_dirs [] s = Inr s"
| "check_catalogs e example_dirs (template_name # names) s =
     and_then (templates_json e template_name) (\<lambda>templates.
     and_then (check_templates e example_dirs [] templates
                 (print (''Working on '' @ template_name) s)) (\<lambda>s1.
       check_catalogs e example_dirs names s1))"

section \<open>The example directories\<close>

definition subdir_readme_msg :: "env \<Rightarrow> string \<Rightarrow> string" where
  "subdir_readme_msg e fname =
     ''Every directory two-levels below '' @ sq @ EXAMPLES_DIR e @ sq @ '' ''
     @ ''must have a README.md. None found for '' @ sq @ fname @ sq @ ''.''"

fun check_first_level_dirs :: "env \<Rightarrow> string list \<Rightarrow> state \<Rightarrow> state" where
  "check_first_level_dirs e [] s = s"
| "check_first_level_dirs e (fname # rest) s =
     check_first_level_dirs e rest
       (if isdir (root e) fname
        then (if \<not> isfile (root e) (os_path_join fname ''README.md'')
              then add (subdir_readme_msg e fname) s else s)
        else s)"

definition non_empty_cells_msg :: "nat \<Rightarrow> string \<Rightarrow> string" where
  "non_empty_cells_msg non_empty_cells notebook_file =
     ''Found '' @ decimal non_empty_cells @ '' non-empty cells in '' @ sq @ notebook_file
     @ sq @ ''. '' @ ''Clear all outputs and re-commit this file.''"

fun add_all :: "string list \<Rightarrow> state \<Rightarrow> state" where
  "add_all [] s = s"
| "add_all (err # errs) s = add_all errs (add err s)"

text \<open>The loop over the cells of one notebook, with the counter \<^verbatim>\<open>non_empty_cells\<close>.\<close>

fun check_cells :: "string \<Rightarrow> json list \<Rightarrow> nat \<Rightarrow> state \<Rightarrow> error + nat \<times> state" where
  "check_cells notebook_file [] non_empty_cells s = Inr (non_empty_cells, s)"
| "check_cells notebook_file (cell # cells) non_empty_cells s =
     and_then (py_get cell ''outputs'' (JArr [])) (\<lambda>outputs.
     and_then (py_get cell ''execution_count'' JNull) (\<lambda>execution_count.
       let n = (if truthy (py_or outputs execution_count)
                then non_empty_cells + 1 else non_empty_cells)
       in and_then (py_getitem cell ''cell_type'') (\<lambda>cell_type.
            if cell_type = JStr ''code'' then
              and_then (py_getitem cell ''source'') (\<lambda>source.
              and_then (lint_python_cell notebook_file source) (\<lambda>linting_errors.
                check_cells notebook_file cells n (add_all linting_errors s)))
            else check_cells notebook_file cells n s)))"

fun check_notebooks :: "env \<Rightarrow> string list \<Rightarrow> state \<Rightarrow> error + state" where
  "check_notebooks e [] s = Inr s"
| "check_notebooks e (notebook_file # rest) s =
     and_then (load_json (root e) notebook_file) (\<lambda>notebook_dict.
     and_then (py_getitem notebook_dict ''cells'') (\<lambda>cells.
     and_then (py_iter cells) (\<lambda>cell_list.
     and_then (check_cells notebook_file cell_list 0 s) (\<lambda>(non_empty_cells, s1).
       check_notebooks e rest
         (if non_empty_cells > 0
          then add (non_empty_cells_msg non_empty_cells notebook_file) s1 else s1)))))"

definition dir_name_msg :: "string \<Rightarrow> string" where
  "dir_name_msg fname =
     ''[here] All directories should be named with only ''
     @ ''lower alphanumeric characters and dashes. ''
     @ sq @ fname @ ''` violates this rule.''"

definition file_name_msg :: "string \<Rightarrow> string" where
  "file_name_msg fname =
     ''All files should be named with only ''
     @ ''alphanumeric characters, dashes, underscores, and periods. ''
     @ sq @ fname @ ''` violates this rule.''"

fun check_names :: "env \<Rightarrow> string list \<Rightarrow> state \<Rightarrow> state" where
  "check_names e [] s = s"
| "check_names e (fname # rest) s =
     check_names e rest
       (if isdir (root e) fname then
          let base_name = basename (normpath fname);
              is_valid = (if base_name \<in> set ADMIN_DIRS then True else DIRECTORY_REGEX base_name)
          in if \<not> is_valid then add (dir_name_msg fname) s else s
        else
          let base_name = basename fname;
              is_valid = FILENAME_REGEX base_name
          in if \<not> is_valid then add (file_name_msg fname) s else s)"

definition top_dir_name_msg :: "env \<Rightarrow> string \<Rightarrow> string" where
  "top_dir_name_msg e full_dir =
     ''All directories under '' @ sq @ EXAMPLES_DIR e @ sq @ '' should be named with only ''
     @ ''lower alphanumeric characters and dashes. ''
     @ sq @ full_dir @ ''` violates this rule.''"

definition empty_msg :: "string \<Rightarrow> string" where
  "empty_msg full_dir = ''Directory '' @ sq @ full_dir @ sq @ '' is empty''"

definition readme_msg :: "string \<Rightarrow> string" where
  "readme_msg full_dir =
     ''Every example must have a README.md. '' @ sq @ full_dir @ sq @ '' does not.''"

definition saturn_dir_msg :: "string \<Rightarrow> string" where
  "saturn_dir_msg full_dir =
     sq @ full_dir @ sq @ '' does not include a '' @ sq @ SATURN_DIR_NAME @ ''/'' @ sq
     @ '' directory''"

definition saturn_json_msg :: "string \<Rightarrow> string" where
  "saturn_json_msg saturn_dir =
     ''Did not find saturn.json in '' @ sq @ saturn_dir @ sq @ ''. This file is required.''"

definition schema_issues_msg :: "string \<Rightarrow> string \<Rightarrow> string" where
  "schema_issues_msg saturn_json text =
     sq @ saturn_json @ sq @ '' has the following schema issues: '' @ text"

text \<open>
  Lines 319 to 378 of the loop body: the second-level READMEs, the notebooks, the names of
  everything below the directory, and the README of the example.
\<close>

definition check_contents :: "env \<Rightarrow> string \<Rightarrow> string list \<Rightarrow> state \<Rightarrow> error + state" where
  "check_contents e full_dir all_files s =
     (let first_level_dirs = glob_flat (root e) full_dir;
          s1 = check_first_level_dirs e first_level_dirs s;
          notebook_files = filter (\<lambda>f. endswith f ''.ipynb'') all_files
      in and_then (check_notebooks e notebook_files s1) (\<lambda>s2.
           let s3 = check_names e all_files s2;
               readme_file = os_path_join full_dir ''README.md'';
               s4 = (if \<not> isfile (root e) readme_file then add (readme_msg full_dir) s3 else s3)
           in Inr s4))"

text \<open>
  Lines 380 to 397: the \<^verbatim>\<open>.saturn\<close> directory, \<^verbatim>\<open>saturn.json\<close> and the recipe. Of the
  exceptions of \<open>validate_recipe\<close> only \<open>ValidationError\<close> is caught.
\<close>

definition check_saturn ::
    "env \<Rightarrow> (json \<Rightarrow> error option) \<Rightarrow> string list \<Rightarrow> string \<Rightarrow> string \<Rightarrow> state \<Rightarrow> error + state" where
  "check_saturn e schema instance_type_options example_dir full_dir s =
     (let saturn_dir = os_path_join full_dir SATURN_DIR_NAME;
          s1 = (if \<not> isdir (root e) saturn_dir then add (saturn_dir_msg full_dir) s else s);
          saturn_json = os_path_join saturn_dir SATURN_JSON_NAME
      in if \<not> isfile (root e) saturn_json then Inr (add (saturn_json_msg saturn_dir) s1)
         else
           (case validate_recipe e schema instance_type_options saturn_json example_dir of
              Inr u \<Rightarrow> Inr s1
            | Inl (ValidationError text) \<Rightarrow> Inr (add (schema_issues_msg saturn_json text) s1)
            | Inl err \<Rightarrow> Inl err))"

text \<open>One pass of the loop over \<^verbatim>\<open>example_dirs\<close>; \<^verbatim>\<open>continue\<close> ends the pass.\<close>

definition check_example ::
    "env \<Rightarrow> (json \<Rightarrow> error option) \<Rightarrow> string list \<Rightarrow> string \<Rightarrow> state \<Rightarrow> error + state" where
  "check_example e schema instance_type_options example_dir s =
     (let s0 = print (''Working on directory '' @ sq @ example_dir @ sq) s;
          full_dir = os_path_join (EXAMPLES_DIR e) example_dir
      in if \<not> DIRECTORY_REGEX (basename example_dir)
         then Inr (add (top_dir_name_msg e full_dir) s0)
         else
           let all_files = glob_recursive (root e) full_dir
           in if length all_files = 0 then Inr (add (empty_msg full_dir) s0)
              else
                and_then (check_contents e full_dir all_files s0) (\<lambda>s4.
                  check_saturn e schema instance_type_options example_dir full_dir s4))"

fun check_examples ::
    "env \<Rightarrow> (json \<Rightarrow> error option) \<Rightarrow> string list \<Rightarrow> string list \<Rightarrow> state \<Rightarrow> error + state" where
  "check_examples e schema instance_type_options [] s = Inr s"
| "check_examples e schema instance_type_options (example_dir # rest) s =
     and_then (check_example e schema instance_type_options example_dir s) (\<lambda>s1.
       check_examples e schema instance_type_options rest s1)"

section \<open>The program\<close>

text \<open>
  The block under \<^verbatim>\<open>if __name__ == "__main__"\<close>. The result is the exception that ended
  the run, or what \<open>report\<close> printed and the exit status of the process.
\<close>

definition no_directories_msg :: "env \<Rightarrow> string" where
  "no_directories_msg e = ''No directories found under '' @ sq @ EXAMPLES_DIR e @ sq"

definition main :: "env \<Rightarrow> error + string list \<times> int" where
  "main e =
     and_then (recipe_schema e) (\<lambda>schema.
     and_then (instance_types e) (\<lambda>instance_type_options.
     and_then (listdir (root e) (EXAMPLES_DIR e)) (\<lambda>example_dirs.
       let s0 = \<lparr>stdout = [], errors = []\<rparr>;
           s1 = (if length example_dirs = 0 then add (no_directories_msg e) s0 else s0)
       in and_then (check_catalogs e example_dirs TEMPLATES_JSON_NAMES s1) (\<lambda>s2.
          and_then (check_examples e schema instance_type_options example_dirs s2) (\<lambda>s3.
            Inr (report s3))))))"

section \<open>Notions used to state the properties\<close>

text \<open>
  The four workload fields in the order of the \<^verbatim>\<open>or\<close> chain, and the first of them that
  is not null in an object; a field that is absent counts as null, as \<^verbatim>\<open>recipe.get\<close>
  makes it.
\<close>

definition workload_fields :: "string list" where
  "workload_fields = [''jupyter_server'', ''deployment'', ''job'', ''rstudio_server'']"

definition first_non_null :: "(string \<times> json) list \<Rightarrow> string list \<Rightarrow> json option" where
  "first_non_null kvs ks =
     find (\<lambda>v. v \<noteq> JNull) (map (\<lambda>k. case map_of kvs k of Some v \<Rightarrow> v | None \<Rightarrow> JNull) ks)"

text \<open>What the catalog loop records about the example directory of one template.\<close>

definition missing_examples :: "string list \<Rightarrow> template \<Rightarrow> string list" where
  "missing_examples example_dirs t =
     (if example_dir_of t \<notin> set example_dirs
      then [missing_example_msg (example_dir_of t) t] else [])"

text \<open>The dictionary \<^verbatim>\<open>weights\<close> after the loop has gone through the templates \<open>ts\<close>.\<close>

definition weights_after :: "(string \<times> int) list \<Rightarrow> template list \<Rightarrow> (string \<times> int) list" where
  "weights_after weights ts = foldl (\<lambda>ws t. AList.update (title t) (weight t) ws) weights ts"

text \<open>The errors of the weight rule are those that begin with \<^verbatim>\<open>Weight (\<close>.\<close>

definition is_weight_error :: "string \<Rightarrow> bool" where
  "is_weight_error msg = startswith msg ''Weight (''"

section \<open>Example inputs\<close>

text \<open>
  One example directory, \<^verbatim>\<open>examples/dask\<close>, a schema that accepts every document, two
  instance types, and a network that answers every request.
\<close>

definition accept_any :: "json \<Rightarrow> error option" where
  "accept_any doc = None"

definition example_options :: "string list" where
  "example_options = [''medium'', ''large'']"

definition example_recipe :: "string \<Rightarrow> (string \<times> json) list \<Rightarrow> (string \<times> json) list" where
  "example_recipe image_uri extra =
     [(''name'', JStr ''example-dask''),
      (''image_uri'', JStr image_uri),
      (''working_directory'', JStr ''/home/jovyan/examples/examples/dask''),
      (''git_repositories'',
         JArr [JObj [(''url'', JStr ''https://github.com/saturncloud/examples''),
                     (''path'', JStr ''/home/jovyan/examples'')]])]
     @ extra"

definition large_jupyter :: json where
  "large_jupyter = JObj [(''instance_type'', JStr ''large''), (''disk_space'', JStr ''10Gi'')]"

definition example_tree :: "(string \<times> fsnode) list \<Rightarrow> fsnode" where
  "example_tree entries = Dir [(''examples'', Dir [(''dask'', Dir entries)])]"

definition recipe_tree :: "json \<Rightarrow> fsnode" where
  "recipe_tree recipe =
     example_tree [(''README.md'', File None),
                   (''.saturn'', Dir [(''saturn.json'', File (Some recipe))])]"

definition no_templates :: "string \<Rightarrow> template list" where
  "no_templates name = []"

definition status_200 :: "string \<Rightarrow> nat" where
  "status_200 url = 200"

definition status_404 :: "string \<Rightarrow> nat" where
  "status_404 url = 404"

definition example_env ::
    "bool \<Rightarrow> fsnode \<Rightarrow> (string \<Rightarrow> template list) \<Rightarrow> (string \<Rightarrow> nat) \<Rightarrow> env" where
  "example_env skip tree catalogs status =
     \<lparr>EXAMPLES_DIR = ''examples'', SKIP_IMAGE_CHECK = skip, root = tree,
      recipe_schema = Inr accept_any, instance_types = Inr example_options,
      templates_json = (\<lambda>name. Inr (catalogs name)),
      requests_get = (\<lambda>url. Inr (status url)),
      docker_hub_token = (\<lambda>url. Inr ''token''), ecr_public_token = Inr ''token'',
      requests_head = (\<lambda>url headers. Inr 200)\<rparr>"

definition saturn_json_path :: string where
  "saturn_json_path = ''examples/dask/.saturn/saturn.json''"

text \<open>A recipe that passes every check, and its environment.\<close>

definition tagged_recipe :: json where
  "tagged_recipe =
     JObj (example_recipe ''saturncloud/saturn:2021.1'' [(''jupyter_server'', large_jupyter)])"

definition tagged_env :: env where
  "tagged_env = example_env True (recipe_tree tagged_recipe) no_templates status_200"

text \<open>An image on a registry named with its port, and an image without a tag.\<close>

definition port_recipe :: json where
  "port_recipe =
     JObj (example_recipe ''localhost:5000/saturn:2021.1'' [(''jupyter_server'', large_jupyter)])"

definition port_env :: env where
  "port_env = example_env True (recipe_tree port_recipe) no_templates status_200"

definition untagged_recipe :: json where
  "untagged_recipe =
     JObj (example_recipe ''saturncloud/saturn'' [(''jupyter_server'', large_jupyter)])"

definition untagged_env :: env where
  "untagged_env = example_env True (recipe_tree untagged_recipe) no_templates status_200"

text \<open>A recipe whose first workload field that is not null is \<^verbatim>\<open>deployment\<close>.\<close>

definition deployment_recipe :: "(string \<times> json) list" where
  "deployment_recipe =
     example_recipe ''saturncloud/saturn:2021.1''
       [(''jupyter_server'', JNull),
        (''deployment'', JObj [(''instance_type'', JStr ''8xlarge'')]),
        (''job'', JObj [(''instance_type'', JStr ''large'')])]"

definition deployment_env :: env where
  "deployment_env =
     example_env False (recipe_tree (JObj deployment_recipe)) no_templates status_200"

text \<open>A cluster of four workers, whose instance type differs from the server's.\<close>

definition four_workers :: "(string \<times> json) list" where
  "four_workers =
     [(''num_workers'', JNum 4), (''worker'', JObj [(''instance_type'', JStr ''medium'')])]"

definition four_workers_recipe :: json where
  "four_workers_recipe =
     JObj (example_recipe ''saturncloud/saturn:2021.1''
             [(''jupyter_server'', large_jupyter), (''dask_cluster'', JObj four_workers)])"

definition four_workers_env :: env where
  "four_workers_env = example_env False (recipe_tree four_workers_recipe) no_templates status_200"

text \<open>
  Three templates, two of them of equal weight; and two catalogs, each with one of the two.
\<close>

definition dask_template :: template where
  "dask_template =
     \<lparr>title = ''Dask'', weight = 10,
      thumbnail_image_url = ''https://saturncloud.io/static/dask.png'',
      recipe_path = ''examples/dask/.saturn/saturn.json''\<rparr>"

definition gpu_template :: template where
  "gpu_template =
     \<lparr>title = ''Dask on GPU'', weight = 10,
      thumbnail_image_url = ''https://saturncloud.io/static/gpu.png'',
      recipe_path = ''examples/dask/.saturn/saturn.json''\<rparr>"

definition pandas_template :: template where
  "pandas_template =
     \<lparr>title = ''Pandas'', weight = 20,
      thumbnail_image_url = ''https://saturncloud.io/static/pandas.png'',
      recipe_path = ''examples/dask/.saturn/saturn.json''\<rparr>"

definition two_catalogs :: "string \<Rightarrow> template list" where
  "two_catalogs name =
     (if name = ''templates-hosted.json'' then [dask_template, pandas_template]
      else [gpu_template])"

definition two_catalogs_env :: env where
  "two_catalogs_env = example_env True (recipe_tree tagged_recipe) two_catalogs status_200"

text \<open>A catalog whose thumbnail is answered with status 404; everything else is in order.\<close>

definition hosted_only :: "string \<Rightarrow> template list" where
  "hosted_only name = (if name = ''templates-hosted.json'' then [dask_template] else [])"

definition broken_thumbnail_env :: env where
  "broken_thumbnail_env = example_env True (recipe_tree tagged_recipe) hosted_only status_404"

text \<open>An example directory with a README and no \<^verbatim>\<open>.saturn\<close>, and an empty one.\<close>

definition no_saturn_env :: env where
  "no_saturn_env =
     example_env True (example_tree [(''README.md'', File None)]) no_templates status_200"

definition empty_dir_env :: env where
  "empty_dir_env = example_env True (example_tree []) no_templates status_200"

definition start :: state where
  "start = \<lparr>stdout = [], errors = []\<rparr>"



section \<open>Properties of the report\<close>







text \<open>A run that ends without an exception ends with the report of its final state.\<close>

lemma main_ends_with_report:
  assumes "main e = Inr r"
  shows "\<exists>s. r = report s"
  using assms
  by (auto simp: main_def and_then_def Let_def split: sum.splits)

section \<open>Properties of the lint\<close>

lemma contains_iff: "contains p s \<longleftrightarrow> (\<exists>a b. s = a @ p @ b)"
proof (induction s)
  case Nil
  show ?case by auto
next
  case (Cons c cs)
  show ?case
  proof
    assume "contains p (c # cs)"
    then consider "prefix p (c # cs)" | "contains p cs" by auto
    then show "\<exists>a b. c # cs = a @ p @ b"
    proof cases
      case 1
      then obtain b where "c # cs = p @ b" by (auto simp: prefix_def)
      then have "c # cs = [] @ p @ b" by simp
      then show ?thesis by blast
    next
      case 2
      with Cons.IH obtain a b where "cs = a @ p @ b" by blast
      then have "c # cs = (c # a) @ p @ b" by simp
      then show ?thesis by blast
    qed
  next
    assume "\<exists>a b. c # cs = a @ p @ b"
    then obtain a b where ab: "c # cs = a @ p @ b" by blast
    show "contains p (c # cs)"
    proof (cases a)
      case Nil
      with ab have "prefix p (c # cs)" by (simp add: prefix_def)
      then show ?thesis by simp
    next
      case (Cons a1 as)
      with ab have "cs = as @ p @ b" by simp
      with Cons.IH have "contains p cs" by blast
      then show ?thesis by simp
    qed
  qed
qed

lemma lint_messages_differ: "warnings_filter_msg f \<noteq> delayed_msg f"
  by (simp add: warnings_filter_msg_def delayed_msg_def)

text \<open>
  Claim C9. Let the source of a code cell join to \<open>code_str\<close>. If the text \<^verbatim>\<open>@delayed\<close>
  occurs in it (whatever stands before the occurrence), the lint returns exactly one error
  of the decorator rule. If \<^verbatim>\<open>@dask.delayed\<close> occurs and \<^verbatim>\<open>@delayed\<close> does not, the lint
  returns no error of that rule.
\<close>

theorem lint_delayed_rule:
  assumes "py_join code_lines = Inr code_str"
  shows "(contains ''@delayed'' code_str \<longrightarrow>
           (\<exists>errs. lint_python_cell file_name code_lines = Inr errs
                    \<and> count_list errs (delayed_msg file_name) = 1))
       \<and> (contains ''@dask.delayed'' code_str \<and> \<not> contains ''@delayed'' code_str \<longrightarrow>
           (\<exists>errs. lint_python_cell file_name code_lines = Inr errs
                    \<and> count_list errs (delayed_msg file_name) = 0))"
  using assms lint_messages_differ [of file_name]
  by (auto simp: lint_python_cell_def and_then_def Let_def)

theorem lint_delayed_rule_witness:
  "py_join (JArr [JStr ''@delayed\<newline>'', JStr ''def f(): pass'']) = Inr ''@delayed\<newline>def f(): pass''
   \<and> contains ''@delayed'' ''@delayed\<newline>def f(): pass''
   \<and> (\<exists>errs. lint_python_cell ''nb.ipynb'' (JArr [JStr ''@delayed\<newline>'', JStr ''def f(): pass'']) = Inr errs
              \<and> count_list errs (delayed_msg ''nb.ipynb'') = 1)
   \<and> py_join (JArr [JStr ''@dask.delayed\<newline>'', JStr ''def f(): pass'']) = Inr ''@dask.delayed\<newline>def f(): pass''
   \<and> contains ''@dask.delayed'' ''@dask.delayed\<newline>def f(): pass''
   \<and> \<not> contains ''@delayed'' ''@dask.delayed\<newline>def f(): pass''
   \<and> (\<exists>errs. lint_python_cell ''nb.ipynb'' (JArr [JStr ''@dask.delayed\<newline>'', JStr ''def f(): pass'']) = Inr errs
              \<and> count_list errs (delayed_msg ''nb.ipynb'') = 0)"
proof -
  have j1: "py_join (JArr [JStr ''@delayed\<newline>'', JStr ''def f(): pass'']) = Inr ''@delayed\<newline>def f(): pass''"
    by (simp add: py_join_def and_then_def)
  have c1: "contains ''@delayed'' ''@delayed\<newline>def f(): pass''"
    by simp
  have j2: "py_join (JArr [JStr ''@dask.delayed\<newline>'', JStr ''def f(): pass'']) = Inr ''@dask.delayed\<newline>def f(): pass''"
    by (simp add: py_join_def and_then_def)
  have c2: "contains ''@dask.delayed'' ''@dask.delayed\<newline>def f(): pass''"
    by simp
  have c3: "\<not> contains ''@delayed'' ''@dask.delayed\<newline>def f(): pass''"
    by simp
  from lint_delayed_rule [OF j1, of "''nb.ipynb''"] lint_delayed_rule [OF j2, of "''nb.ipynb''"] j1 c1 j2 c2 c3
  show ?thesis by blast
qed

section \<open>Basic facts\<close>

lemma and_then_Inl [simp]: "and_then (Inl e) f = Inl e"
  by (simp add: and_then_def)

lemma and_then_Inr [simp]: "and_then (Inr v) f = f v"
  by (simp add: and_then_def)

lemma split_from_not_Nil: "split_from sep k s \<noteq> []"
  by (induction sep k s rule: split_from.induct) (auto split: list.splits)

lemma length_split_char: "length (split_from [c] 0 s) = Suc (count_list s c)"
  by (induction s) (auto split: list.splits simp: split_from_not_Nil)

lemma split_char_none: "c \<notin> set s \<Longrightarrow> split_from [c] 0 s = [s]"
  by (induction s) (auto split: list.splits)

lemma split_char_at_first:
  "c \<notin> set a \<Longrightarrow> split_from [c] 0 (a @ c # b) = a # split_from [c] 0 b"
  by (induction a) (auto split: list.splits)

lemma split_char_once:
  assumes "count_list s c = 1"
  shows "\<exists>a b. s = a @ c # b \<and> c \<notin> set a \<and> c \<notin> set b \<and> split_from [c] 0 s = [a, b]"
proof -
  from assms have "c \<in> set s" by (metis count_list_0_iff zero_neq_one)
  then obtain a b where s: "s = a @ c # b" and a: "c \<notin> set a"
    by (meson split_list_first)
  from assms s a have "count_list b c = 0" by (simp add: count_list_0_iff)
  then have b: "c \<notin> set b" by (simp add: count_list_0_iff)
  from s a b show ?thesis
    by (auto simp: split_char_at_first split_char_none)
qed

lemma split_char_append:
  "split_from [c] 0 (a @ c # b) = split_from [c] 0 a @ split_from [c] 0 b"
proof (induction a)
  case Nil
  show ?case by simp
next
  case (Cons x a)
  obtain w ws where ws: "split_from [c] 0 a = w # ws"
    using split_from_not_Nil [of "[c]" 0 a] by (cases "split_from [c] 0 a") auto
  show ?case
  proof (cases "x = c")
    case True
    with Cons.IH show ?thesis by simp
  next
    case False
    with Cons.IH ws show ?thesis by simp
  qed
qed

lemma unpack_two_fails:
  "length ps \<noteq> 2 \<Longrightarrow> (case ps of [a, b] \<Rightarrow> f a b | _ \<Rightarrow> g) = g"
  by (auto split: list.splits)

lemma py_getitem_not_validation [simp]: "py_getitem x k \<noteq> Inl (ValidationError m)"
  by (cases x) (simp_all split: option.splits)

lemma py_get_not_validation [simp]: "py_get x k dflt \<noteq> Inl (ValidationError m)"
  by (cases x) (simp_all split: option.splits)

lemma py_in_not_validation [simp]: "py_in k x \<noteq> Inl (ValidationError m)"
  by (cases x) simp_all

lemma py_gt_not_validation [simp]: "py_gt x n \<noteq> Inl (ValidationError m)"
  by (cases x) simp_all

section \<open>Properties of the file system\<close>

lemma walk_append:
  "walk cur up (cs @ ds) =
     (case walk cur up cs of None \<Rightarrow> None | Some (cur', up') \<Rightarrow> walk cur' up' ds)"
proof (induction cur up cs rule: walk.induct)
  case (1 cur up)
  show ?case by simp
next
  case (2 content up c cs)
  show ?case by simp
next
  case (3 es up c cs)
  then show ?case
    by (auto split: list.splits option.splits)
qed

lemma resolve_child:
  assumes "p \<noteq> []" and "CHR ''/'' \<notin> set n" and "n \<noteq> []" and "n \<noteq> ''.''" and "n \<noteq> ''..''"
  shows "resolve r (p @ ''/'' @ n) =
           (case resolve r p of Some (Dir es) \<Rightarrow> map_of es n | _ \<Rightarrow> None)"
proof -
  have "py_split (p @ ''/'' @ n) ''/'' = py_split p ''/'' @ [n]"
    using assms(2) by (simp add: py_split_def split_char_append split_char_none)
  then show ?thesis
    using assms(1,3-5)
    by (auto simp: resolve_def walk_append split: option.splits fsnode.splits)
qed

lemma load_json_isfile: "load_json r p = Inr doc \<Longrightarrow> isfile r p"
  by (auto simp: load_json_def isfile_def split: option.splits fsnode.splits)

lemma saturn_json_needs_saturn_dir:
  assumes "\<not> isdir r (os_path_join full_dir SATURN_DIR_NAME)"
  shows "\<not> isfile r (os_path_join (os_path_join full_dir SATURN_DIR_NAME) SATURN_JSON_NAME)"
proof -
  let ?sd = "os_path_join full_dir SATURN_DIR_NAME"
  have ne: "?sd \<noteq> []"
    by (simp add: os_path_join_def SATURN_DIR_NAME_def startswith_def)
  have ns: "\<not> endswith ?sd ''/''"
    by (simp add: os_path_join_def SATURN_DIR_NAME_def startswith_def endswith_def)
  have j: "os_path_join ?sd SATURN_JSON_NAME = ?sd @ ''/'' @ ''saturn.json''"
    using ne ns by (simp add: os_path_join_def [of ?sd] SATURN_JSON_NAME_def startswith_def)
  have "resolve r (?sd @ ''/'' @ ''saturn.json'') =
          (case resolve r ?sd of Some (Dir es) \<Rightarrow> map_of es ''saturn.json'' | _ \<Rightarrow> None)"
    using ne by (intro resolve_child) simp_all
  with assms have "resolve r (?sd @ ''/'' @ ''saturn.json'') = None"
    by (auto simp: isdir_def split: option.splits fsnode.splits)
  with j show ?thesis by (simp add: isfile_def)
qed

lemma glob_recursive_of_directory: "isdir r d \<Longrightarrow> glob_recursive r d \<noteq> []"
  by (auto simp: isdir_def glob_recursive_def split: option.splits fsnode.splits)

section \<open>Properties of the recipe validation\<close>

text \<open>
  Claim C3, as amended. \<open>validate_recipe\<close> splits \<^verbatim>\<open>image_uri\<close> at every \<^verbatim>\<open>:\<close> and takes
  exactly two pieces. When the text has exactly one \<^verbatim>\<open>:\<close>, the name is what stands before
  it and the tag what stands after it. When it has none, or more than one (a registry host
  with a port), the assignment raises \<^verbatim>\<open>ValueError\<close>.
\<close>

theorem split_image_uri_single_colon:
  assumes "py_getitem recipe ''image_uri'' = Inr (JStr u)"
  shows "(count_list u CHR '':'' = 1 \<longrightarrow>
            (\<exists>image_name image_tag.
                split_image_uri recipe = Inr (image_name, image_tag)
                \<and> u = image_name @ '':'' @ image_tag
                \<and> CHR '':'' \<notin> set image_name \<and> CHR '':'' \<notin> set image_tag))
       \<and> (count_list u CHR '':'' \<noteq> 1 \<longrightarrow> split_image_uri recipe = Inl ValueError)"
proof (intro conjI impI)
  assume "count_list u CHR '':'' = 1"
  from split_char_once [OF this] obtain a b
    where "u = a @ CHR '':'' # b" "CHR '':'' \<notin> set a" "CHR '':'' \<notin> set b"
      "split_from '':'' 0 u = [a, b]"
    by blast
  with assms show "\<exists>image_name image_tag.
      split_image_uri recipe = Inr (image_name, image_tag)
      \<and> u = image_name @ '':'' @ image_tag
      \<and> CHR '':'' \<notin> set image_name \<and> CHR '':'' \<notin> set image_tag"
    by (simp add: split_image_uri_def py_split_def)
next
  assume "count_list u CHR '':'' \<noteq> 1"
  then have "length (py_split u '':'') \<noteq> 2"
    by (simp add: py_split_def length_split_char)
  with assms show "split_image_uri recipe = Inl ValueError"
    by (simp add: split_image_uri_def unpack_two_fails)
qed

text \<open>
  The amended claim at two recipes: one image with a tag, one without.
\<close>

theorem split_image_uri_single_colon_witness:
  "py_getitem tagged_recipe ''image_uri'' = Inr (JStr ''saturncloud/saturn:2021.1'')
   \<and> count_list ''saturncloud/saturn:2021.1'' CHR '':'' = 1
   \<and> (\<exists>image_name image_tag.
          split_image_uri tagged_recipe = Inr (image_name, image_tag)
          \<and> ''saturncloud/saturn:2021.1'' = image_name @ '':'' @ image_tag
          \<and> CHR '':'' \<notin> set image_name \<and> CHR '':'' \<notin> set image_tag)
   \<and> py_getitem untagged_recipe ''image_uri'' = Inr (JStr ''saturncloud/saturn'')
   \<and> count_list ''saturncloud/saturn'' CHR '':'' \<noteq> 1
   \<and> split_image_uri untagged_recipe = Inl ValueError"
proof -
  have g1: "py_getitem tagged_recipe ''image_uri'' = Inr (JStr ''saturncloud/saturn:2021.1'')"
    by code_simp
  have c1: "count_list ''saturncloud/saturn:2021.1'' CHR '':'' = 1"
    by code_simp
  have g2: "py_getitem untagged_recipe ''image_uri'' = Inr (JStr ''saturncloud/saturn'')"
    by code_simp
  have c2: "count_list ''saturncloud/saturn'' CHR '':'' \<noteq> 1"
    by code_simp
  from split_image_uri_single_colon [OF g1] split_image_uri_single_colon [OF g2] g1 c1 g2 c2
  show ?thesis by blast
qed

text \<open>
  Claim C3 as stated fails: for the image \<^verbatim>\<open>localhost:5000/saturn:2021.1\<close> the split does
  not give the name \<^verbatim>\<open>localhost:5000/saturn\<close> and the tag \<^verbatim>\<open>2021.1\<close>; it raises
  \<^verbatim>\<open>ValueError\<close>, and so does \<open>validate_recipe\<close>.
\<close>

theorem split_image_uri_port_counterexample:
  "py_getitem port_recipe ''image_uri'' = Inr (JStr ''localhost:5000/saturn:2021.1'')
   \<and> split_image_uri port_recipe = Inl ValueError
   \<and> split_image_uri port_recipe \<noteq> Inr (''localhost:5000/saturn'', ''2021.1'')
   \<and> validate_recipe port_env accept_any example_options saturn_json_path ''dask''
       = Inl ValueError"
  by code_simp

lemma validate_recipe_bad_image_uri:
  assumes "load_json (root e) path = Inr recipe"
    and "schema recipe = None"
    and "check_name recipe = Inr ()"
    and "py_getitem recipe ''image_uri'' = Inr (JStr u)"
    and "count_list u CHR '':'' \<noteq> 1"
  shows "validate_recipe e schema opts path d = Inl ValueError"
proof -
  from assms(5) have "length (py_split u '':'') \<noteq> 2"
    by (simp add: py_split_def length_split_char)
  with assms(4) have "split_image_uri recipe = Inl ValueError"
    by (simp add: split_image_uri_def unpack_two_fails)
  with assms(1-3) show ?thesis
    by (simp add: validate_recipe_def)
qed

lemma validate_recipe_reaches_resources:
  assumes "load_json (root e) path = Inr recipe"
    and "schema recipe = None"
    and "check_name recipe = Inr ()"
    and "split_image_uri recipe = Inr (image_name, image_tag)"
    and "check_image e image_name image_tag = Inr ()"
    and "check_working_directory e recipe d = Inr ()"
    and "check_git_repositories recipe = Inr ()"
  shows "validate_recipe e schema opts path d = check_resources opts recipe"
  using assms by (simp add: validate_recipe_def)

lemma select_resource_first_non_null:
  assumes "first_non_null kvs workload_fields = Some (JObj w)"
    and "w \<noteq> []"
  shows "\<exists>workspace. select_resource (JObj kvs) = Inr (JObj w, workspace)"
  using assms
  by (auto simp: select_resource_def first_non_null_def workload_fields_def py_or_def
      split: option.splits if_splits)

lemma resource_messages_differ:
  "too_many_workers_msg \<noteq> instance_type_msg x"
  "worker_mismatch_msg \<noteq> instance_type_msg x"
  "disk_space_msg \<noteq> instance_type_msg x"
  by (simp_all add: too_many_workers_msg_def worker_mismatch_msg_def disk_space_msg_def
      instance_type_msg_def)

lemma check_dask_cluster_not_instance_type_msg:
  "check_dask_cluster recipe resource \<noteq> Inl (ValidationError (instance_type_msg x))"
  using resource_messages_differ [of x]
  by (auto simp: check_dask_cluster_def and_then_def split: sum.splits if_splits)

lemma check_disk_space_not_instance_type_msg:
  "check_disk_space workspace \<noteq> Inl (ValidationError (instance_type_msg x))"
  using resource_messages_differ [of x]
  by (auto simp: check_disk_space_def and_then_def split: sum.splits if_splits)

text \<open>
  Claim C6. Take a recipe that passes the checks before line 128 (schema, name, image,
  working directory, repositories), and let the first of \<^verbatim>\<open>jupyter_server\<close>,
  \<^verbatim>\<open>deployment\<close>, \<^verbatim>\<open>job\<close>, \<^verbatim>\<open>rstudio_server\<close> that is not null be an object \<open>w\<close> with
  the instance type \<open>t\<close>. Then \<open>w\<close> is the resource the code selects, and
  \<open>validate_recipe\<close> raises the instance-type error exactly when \<open>t\<close> is not among the
  instance-type options.
\<close>

theorem instance_type_of_first_non_null_workload:
  assumes "load_json (root e) path = Inr (JObj kvs)"
    and "schema (JObj kvs) = None"
    and "check_name (JObj kvs) = Inr ()"
    and "split_image_uri (JObj kvs) = Inr (image_name, image_tag)"
    and "check_image e image_name image_tag = Inr ()"
    and "check_working_directory e (JObj kvs) d = Inr ()"
    and "check_git_repositories (JObj kvs) = Inr ()"
    and "first_non_null kvs workload_fields = Some (JObj w)"
    and "map_of w ''instance_type'' = Some (JStr t)"
  shows "(\<exists>workspace. select_resource (JObj kvs) = Inr (JObj w, workspace))
       \<and> (validate_recipe e schema opts path d = Inl (ValidationError (instance_type_msg (JStr t)))
            \<longleftrightarrow> t \<notin> set opts)"
proof -
  from assms(9) have "w \<noteq> []" by auto
  with assms(8) obtain workspace where sel: "select_resource (JObj kvs) = Inr (JObj w, workspace)"
    using select_resource_first_non_null by blast
  have v: "validate_recipe e schema opts path d = check_resources opts (JObj kvs)"
    using assms(1-7) by (rule validate_recipe_reaches_resources)
  have "check_resources opts (JObj kvs) = Inl (ValidationError (instance_type_msg (JStr t)))
          \<longleftrightarrow> t \<notin> set opts"
  proof (cases "t \<in> set opts")
    case True
    then have "check_resources opts (JObj kvs) =
        and_then (check_dask_cluster (JObj kvs) (JObj w)) (\<lambda>u. check_disk_space workspace)"
      using sel assms(9) by (simp add: check_resources_def check_instance_type_def)
    then show ?thesis
      using True check_dask_cluster_not_instance_type_msg [of "JObj kvs" "JObj w" "JStr t"]
        check_disk_space_not_instance_type_msg [of workspace "JStr t"]
      by (auto simp: and_then_def split: sum.splits)
  next
    case False
    then show ?thesis
      using sel assms(9) by (simp add: check_resources_def check_instance_type_def)
  qed
  with sel v show ?thesis by auto
qed

text \<open>
  Claim C6 at a recipe whose \<^verbatim>\<open>jupyter_server\<close> is null and whose \<^verbatim>\<open>deployment\<close> asks for
  \<^verbatim>\<open>8xlarge\<close>: the error is raised when \<^verbatim>\<open>8xlarge\<close> is no option, and not raised when it is.
\<close>

theorem instance_type_of_first_non_null_workload_witness:
  "first_non_null deployment_recipe workload_fields
     = Some (JObj [(''instance_type'', JStr ''8xlarge'')])
   \<and> ''8xlarge'' \<notin> set example_options
   \<and> validate_recipe deployment_env accept_any example_options saturn_json_path ''dask''
       = Inl (ValidationError (instance_type_msg (JStr ''8xlarge'')))
   \<and> ''8xlarge'' \<in> set (''8xlarge'' # example_options)
   \<and> validate_recipe deployment_env accept_any (''8xlarge'' # example_options)
        saturn_json_path ''dask''
       \<noteq> Inl (ValidationError (instance_type_msg (JStr ''8xlarge'')))"
proof -
  have h1: "load_json (root deployment_env) saturn_json_path = Inr (JObj deployment_recipe)"
    by code_simp
  have h2: "accept_any (JObj deployment_recipe) = None"
    by (simp add: accept_any_def)
  have h3: "check_name (JObj deployment_recipe) = Inr ()"
    by code_simp
  have h4: "split_image_uri (JObj deployment_recipe) = Inr (''saturncloud/saturn'', ''2021.1'')"
    by code_simp
  have h5: "check_image deployment_env ''saturncloud/saturn'' ''2021.1'' = Inr ()"
    by code_simp
  have h6: "check_working_directory deployment_env (JObj deployment_recipe) ''dask'' = Inr ()"
    by code_simp
  have h7: "check_git_repositories (JObj deployment_recipe) = Inr ()"
    by code_simp
  have h8: "first_non_null deployment_recipe workload_fields
              = Some (JObj [(''instance_type'', JStr ''8xlarge'')])"
    by code_simp
  have h9: "map_of [(''instance_type'', JStr ''8xlarge'')] ''instance_type'' = Some (JStr ''8xlarge'')"
    by simp
  have n: "''8xlarge'' \<notin> set example_options"
    by (simp add: example_options_def)
  have y: "''8xlarge'' \<in> set (''8xlarge'' # example_options)"
    by simp
  from instance_type_of_first_non_null_workload
         [where schema = accept_any and opts = example_options,
          OF h1 h2 h3 h4 h5 h6 h7 h8 h9]
       instance_type_of_first_non_null_workload
         [where schema = accept_any and opts = "''8xlarge'' # example_options",
          OF h1 h2 h3 h4 h5 h6 h7 h8 h9]
       h8 n y
  show ?thesis by blast
qed

lemma check_saturn_uncaught:
  assumes "validate_recipe e schema opts (os_path_join (os_path_join full_dir SATURN_DIR_NAME) SATURN_JSON_NAME) d = Inl err"
    and "\<forall>text. err \<noteq> ValidationError text"
    and "isfile (root e) (os_path_join (os_path_join full_dir SATURN_DIR_NAME) SATURN_JSON_NAME)"
  shows "check_saturn e schema opts d full_dir s = Inl err"
  using assms by (cases err) (simp_all add: check_saturn_def Let_def)

lemma check_saturn_caught:
  assumes "validate_recipe e schema opts (os_path_join (os_path_join full_dir SATURN_DIR_NAME) SATURN_JSON_NAME) d = Inl (ValidationError text)"
    and "isfile (root e) (os_path_join (os_path_join full_dir SATURN_DIR_NAME) SATURN_JSON_NAME)"
  shows "check_saturn e schema opts d full_dir s =
           Inr (add (schema_issues_msg (os_path_join (os_path_join full_dir SATURN_DIR_NAME) SATURN_JSON_NAME) text)
                  (if isdir (root e) (os_path_join full_dir SATURN_DIR_NAME) then s
                   else add (saturn_dir_msg full_dir) s))"
  using assms by (simp add: check_saturn_def Let_def)

text \<open>
  Claim C8. Take a recipe that passes the checks before line 141 (those of C6 and the
  instance type), with a \<^verbatim>\<open>dask_cluster\<close> whose \<^verbatim>\<open>num_workers\<close> is a number above 3.
  Whatever else the cluster holds, also a worker of another instance type or none at all,
  \<open>validate_recipe\<close> raises the error whose text contains
  \<^verbatim>\<open>should not be more than 3 workers\<close>, and the loop records it for \<^verbatim>\<open>saturn.json\<close>.
\<close>

theorem too_many_workers_raised_first:
  assumes "saturn_json = os_path_join (os_path_join full_dir SATURN_DIR_NAME) SATURN_JSON_NAME"
    and "load_json (root e) saturn_json = Inr recipe"
    and "schema recipe = None"
    and "check_name recipe = Inr ()"
    and "split_image_uri recipe = Inr (image_name, image_tag)"
    and "check_image e image_name image_tag = Inr ()"
    and "check_working_directory e recipe d = Inr ()"
    and "check_git_repositories recipe = Inr ()"
    and "select_resource recipe = Inr (resource, workspace)"
    and "check_instance_type opts resource = Inr ()"
    and "py_getitem recipe ''dask_cluster'' = Inr (JObj dask_cluster)"
    and "map_of dask_cluster ''num_workers'' = Some (JNum n)"
    and "3 < n"
  shows "validate_recipe e schema opts saturn_json d = Inl (ValidationError too_many_workers_msg)
       \<and> contains ''should not be more than 3 workers'' too_many_workers_msg
       \<and> check_saturn e schema opts d full_dir s =
           Inr (add (schema_issues_msg saturn_json too_many_workers_msg)
                  (if isdir (root e) (os_path_join full_dir SATURN_DIR_NAME) then s
                   else add (saturn_dir_msg full_dir) s))"
proof -
  from assms(11) obtain kvs where r: "recipe = JObj kvs"
    by (cases recipe) simp_all
  from assms(11) r have g: "py_get recipe ''dask_cluster'' JNull = Inr (JObj dask_cluster)"
    by (simp split: option.splits)
  from assms(12) have ne: "dask_cluster \<noteq> []" by auto
  have "check_dask_cluster recipe resource = Inl (ValidationError too_many_workers_msg)"
    using g ne assms(11-13) by (simp add: check_dask_cluster_def)
  then have "check_resources opts recipe = Inl (ValidationError too_many_workers_msg)"
    using assms(9,10) by (simp add: check_resources_def)
  moreover have "validate_recipe e schema opts saturn_json d = check_resources opts recipe"
    using assms(2-8) by (rule validate_recipe_reaches_resources)
  ultimately have v:
    "validate_recipe e schema opts saturn_json d = Inl (ValidationError too_many_workers_msg)"
    by simp
  have c: "contains ''should not be more than 3 workers'' too_many_workers_msg"
    by (simp add: too_many_workers_msg_def)
  have f: "isfile (root e) saturn_json"
    using assms(2) by (rule load_json_isfile)
  from v f have "check_saturn e schema opts d full_dir s =
           Inr (add (schema_issues_msg saturn_json too_many_workers_msg)
                  (if isdir (root e) (os_path_join full_dir SATURN_DIR_NAME) then s
                   else add (saturn_dir_msg full_dir) s))"
    unfolding assms(1) by (rule check_saturn_caught)
  with v c show ?thesis by simp
qed

text \<open>
  Claim C8 at a cluster of four workers whose worker type differs from the server's.
\<close>

theorem too_many_workers_raised_first_witness:
  "py_getitem four_workers_recipe ''dask_cluster'' = Inr (JObj four_workers)
   \<and> map_of four_workers ''num_workers'' = Some (JNum 4)
   \<and> (3::int) < 4
   \<and> validate_recipe four_workers_env accept_any example_options saturn_json_path ''dask''
       = Inl (ValidationError too_many_workers_msg)
   \<and> contains ''should not be more than 3 workers'' too_many_workers_msg
   \<and> check_saturn four_workers_env accept_any example_options ''dask'' ''examples/dask'' start
       = Inr (add (schema_issues_msg saturn_json_path too_many_workers_msg) start)"
proof -
  have h1: "saturn_json_path
              = os_path_join (os_path_join ''examples/dask'' SATURN_DIR_NAME) SATURN_JSON_NAME"
    by code_simp
  have h2: "load_json (root four_workers_env) saturn_json_path = Inr four_workers_recipe"
    by code_simp
  have h3: "accept_any four_workers_recipe = None"
    by (simp add: accept_any_def)
  have h4: "check_name four_workers_recipe = Inr ()"
    by code_simp
  have h5: "split_image_uri four_workers_recipe = Inr (''saturncloud/saturn'', ''2021.1'')"
    by code_simp
  have h6: "check_image four_workers_env ''saturncloud/saturn'' ''2021.1'' = Inr ()"
    by code_simp
  have h7: "check_working_directory four_workers_env four_workers_recipe ''dask'' = Inr ()"
    by code_simp
  have h8: "check_git_repositories four_workers_recipe = Inr ()"
    by code_simp
  have h9: "select_resource four_workers_recipe = Inr (large_jupyter, large_jupyter)"
    by code_simp
  have h10: "check_instance_type example_options large_jupyter = Inr ()"
    by code_simp
  have h11: "py_getitem four_workers_recipe ''dask_cluster'' = Inr (JObj four_workers)"
    by code_simp
  have h12: "map_of four_workers ''num_workers'' = Some (JNum 4)"
    by (simp add: four_workers_def)
  have h13: "(3::int) < 4"
    by simp
  have d: "isdir (root four_workers_env) (os_path_join ''examples/dask'' SATURN_DIR_NAME)"
    by code_simp
  from too_many_workers_raised_first
         [where schema = accept_any and s = start,
          OF h1 h2 h3 h4 h5 h6 h7 h8 h9 h10 h11 h12 h13]
       h11 h12 h13 d
  show ?thesis by simp
qed

section \<open>Properties of the catalog check\<close>

text \<open>
  Claim C2 fails on the code. The thumbnail of the only template is answered with 404,
  and the catalog check records nothing: the run prints \<^verbatim>\<open>0 errors\<close> and exits with 0.
\<close>

theorem thumbnail_404_records_nothing:
  "requests_get broken_thumbnail_env (thumbnail_image_url dask_template) = Inr 404
   \<and> templates_json broken_thumbnail_env ''templates-hosted.json'' = Inr [dask_template]
   \<and> check_catalogs broken_thumbnail_env [''dask''] TEMPLATES_JSON_NAMES start
       = Inr (start\<lparr>stdout := [''Working on templates-hosted.json'',
                                 ''Working on templates-enterprise.json'']\<rparr>)
   \<and> main broken_thumbnail_env
       = Inr ([''Working on templates-hosted.json'', ''Working on templates-enterprise.json'',
               ''Working on directory '' @ sq @ ''dask'' @ sq,
               nl @ ''------ check results ------'' @ nl,
               ''0 errors found checking examples'' @ nl], 0)"
  by code_simp

lemma weight_msg_is_weight_error: "is_weight_error (weight_msg t ms)"
  by (simp add: is_weight_error_def weight_msg_def startswith_def)

lemma missing_example_msg_not_weight_error: "\<not> is_weight_error (missing_example_msg d t)"
  by (simp add: is_weight_error_def missing_example_msg_def startswith_def)

lemma filter_missing_examples [simp]: "filter is_weight_error (missing_examples dirs t) = []"
  by (simp add: missing_examples_def missing_example_msg_not_weight_error)

lemma filter_concat_missing_examples [simp]:
  "filter is_weight_error (concat (map (missing_examples dirs) ts)) = []"
  by (induction ts) simp_all

lemma check_templates_append:
  "check_templates e dirs ws (xs @ ys) s =
     and_then (check_templates e dirs ws xs s) (check_templates e dirs (weights_after ws xs) ys)"
proof (induction xs arbitrary: ws s)
  case Nil
  show ?case by (simp add: weights_after_def)
next
  case (Cons t ts)
  show ?case
    by (cases "requests_get e (thumbnail_image_url t)")
       (simp_all add: Let_def Cons.IH weights_after_def)
qed

lemma update_values: "snd ` set (AList.update k v al) \<subseteq> insert v (snd ` set al)"
  by (induction al) auto

lemma update_new_key: "k \<notin> fst ` set al \<Longrightarrow> AList.update k v al = al @ [(k, v)]"
  by (induction al) auto

lemma weights_after_distinct_titles:
  "distinct (map fst ws @ map title ts) \<Longrightarrow>
     weights_after ws ts = ws @ map (\<lambda>t. (title t, weight t)) ts"
proof (induction ts arbitrary: ws)
  case Nil
  show ?case by (simp add: weights_after_def)
next
  case (Cons t ts)
  from Cons.prems have new: "title t \<notin> fst ` set ws" by auto
  from Cons.prems have "distinct (map fst (ws @ [(title t, weight t)]) @ map title ts)"
    by auto
  from Cons.IH [OF this] new show ?case
    by (simp add: weights_after_def update_new_key)
qed

lemma no_match: "w \<notin> snd ` set ws \<Longrightarrow> filter (\<lambda>(key, v). w = v) ws = []"
  by (induction ws) auto

lemma check_templates_no_collision:
  assumes "\<forall>t \<in> set ts. \<exists>c. requests_get e (thumbnail_image_url t) = Inr c"
    and "distinct (map weight ts)"
    and "\<forall>t \<in> set ts. weight t \<notin> snd ` set ws"
  shows "check_templates e dirs ws ts s =
           Inr (s\<lparr>errors := errors s @ concat (map (missing_examples dirs) ts)\<rparr>)"
  using assms
proof (induction ts arbitrary: ws s)
  case Nil
  show ?case by simp
next
  case (Cons t ts)
  from Cons.prems(1) obtain c where c: "requests_get e (thumbnail_image_url t) = Inr c"
    by auto
  from Cons.prems(3) have m: "filter (\<lambda>(key, v). weight t = v) ws = []"
    by (simp add: no_match)
  have later: "\<forall>t' \<in> set ts. weight t' \<notin> snd ` set (AList.update (title t) (weight t) ws)"
  proof
    fix t' assume t': "t' \<in> set ts"
    with Cons.prems(2) have "weight t' \<noteq> weight t" by (auto simp: image_iff)
    moreover from Cons.prems(3) t' have "weight t' \<notin> snd ` set ws" by simp
    ultimately show "weight t' \<notin> snd ` set (AList.update (title t) (weight t) ws)"
      using update_values [of "title t" "weight t" ws] by blast
  qed
  from Cons.prems(1,2) have "\<forall>t \<in> set ts. \<exists>c. requests_get e (thumbnail_image_url t) = Inr c"
    and "distinct (map weight ts)" by auto
  from Cons.IH [OF this later] c m show ?case
    by (simp add: Let_def missing_examples_def add_def)
qed

lemma one_match:
  fixes t1 :: template
  assumes "distinct (map weight (xs @ t1 # ys))"
  shows "map fst (filter (\<lambda>(key, v). weight t1 = v) (map (\<lambda>t. (title t, weight t)) (xs @ t1 # ys)))
           = [title t1]"
proof -
  have none: "filter (\<lambda>(key, v). weight t1 = v) (map (\<lambda>t. (title t, weight t)) zs) = []"
    if "weight t1 \<notin> weight ` set zs" for zs :: "template list"
    using that by (intro no_match) (auto simp: image_iff)
  from assms have "weight t1 \<notin> weight ` set xs" and "weight t1 \<notin> weight ` set ys"
    by auto
  then show ?thesis by (simp add: none)
qed

lemma check_templates_one_collision:
  assumes ok: "\<forall>t \<in> set (pre @ t1 # mid @ t2 # post).
                 \<exists>c. requests_get e (thumbnail_image_url t) = Inr c"
    and titles: "distinct (map title (pre @ t1 # mid @ t2 # post))"
    and weights: "distinct (map weight (pre @ t1 # mid @ post))"
    and same: "weight t2 = weight t1"
  shows "check_templates e dirs [] (pre @ t1 # mid @ t2 # post) s =
           Inr (s\<lparr>errors := errors s @ concat (map (missing_examples dirs) (pre @ t1 # mid))
                    @ weight_msg t2 [title t1]
                    # concat (map (missing_examples dirs) (t2 # post))\<rparr>)"
proof -
  define before where "before = pre @ t1 # mid"
  define W where "W = map (\<lambda>t. (title t, weight t)) before"
  define s1 where "s1 = s\<lparr>errors := errors s @ concat (map (missing_examples dirs) before)\<rparr>"
  define s3 where "s3 = s1\<lparr>errors := errors s1 @ weight_msg t2 [title t1] # missing_examples dirs t2\<rparr>"
  have split: "pre @ t1 # mid @ t2 # post = before @ t2 # post"
    by (simp add: before_def)
  have first: "check_templates e dirs [] before s = Inr s1"
    unfolding s1_def before_def using ok weights
    by (intro check_templates_no_collision) auto
  have "distinct (map fst [] @ map title before)"
    using titles by (auto simp: before_def)
  from weights_after_distinct_titles [OF this] have after: "weights_after [] before = W"
    by (simp add: W_def)
  from ok obtain c where c: "requests_get e (thumbnail_image_url t2) = Inr c" by auto
  have "distinct (map weight (pre @ t1 # mid))"
    using weights by auto
  from one_match [OF this]
  have matches: "map fst (filter (\<lambda>(key, v). weight t2 = v) W) = [title t1]"
    unfolding same W_def before_def .
  have rest: "check_templates e dirs (AList.update (title t2) (weight t2) W) post s3 =
                Inr (s3\<lparr>errors := errors s3 @ concat (map (missing_examples dirs) post)\<rparr>)"
  proof (rule check_templates_no_collision)
    show "\<forall>t \<in> set post. \<exists>c. requests_get e (thumbnail_image_url t) = Inr c"
      using ok by auto
    show "distinct (map weight post)"
      using weights by auto
    show "\<forall>t \<in> set post. weight t \<notin> snd ` set (AList.update (title t2) (weight t2) W)"
    proof
      fix t assume t: "t \<in> set post"
      have "snd ` set (AList.update (title t2) (weight t2) W) \<subseteq> insert (weight t2) (snd ` set W)"
        by (rule update_values)
      moreover have "snd ` set W = weight ` set (pre @ t1 # mid)"
        by (simp add: W_def before_def image_image image_Un)
      moreover from weights t have "weight t \<notin> weight ` set (pre @ t1 # mid)"
        by (auto simp: image_iff)
      moreover from weights t same have "weight t \<noteq> weight t2"
        by (auto simp: image_iff)
      ultimately show "weight t \<notin> snd ` set (AList.update (title t2) (weight t2) W)" by blast
    qed
  qed
  have step: "check_templates e dirs W (t2 # post) s1 =
          check_templates e dirs (AList.update (title t2) (weight t2) W) post s3"
    using c matches by (simp add: Let_def s3_def add_def missing_examples_def)
  have "check_templates e dirs [] (before @ t2 # post) s =
          Inr (s3\<lparr>errors := errors s3 @ concat (map (missing_examples dirs) post)\<rparr>)"
    by (simp only: check_templates_append first and_then_Inr after step rest)
  then show ?thesis
    unfolding split by (simp add: s3_def s1_def before_def)
qed

text \<open>
  Claim C7. In a catalog whose titles differ and whose weights differ but for the two
  entries \<open>t1\<close> and \<open>t2\<close>, the loop records, beside what it records about example
  directories, exactly one error of the weight rule; it is raised at \<open>t2\<close> and its text
  holds the title of \<open>t2\<close> and the \<^verbatim>\<open>repr\<close> of the title of \<open>t1\<close>. Two catalogs, each with
  weights that differ within it, record no error of the weight rule, whatever weights they
  share with each other.
\<close>

theorem equal_weights_one_error_per_catalog:
  assumes "\<forall>t \<in> set (pre @ t1 # mid @ t2 # post).
             \<exists>c. requests_get e (thumbnail_image_url t) = Inr c"
    and "distinct (map title (pre @ t1 # mid @ t2 # post))"
    and "distinct (map weight (pre @ t1 # mid @ post))"
    and "weight t2 = weight t1"
    and "templates_json e n1 = Inr ts1"
    and "templates_json e n2 = Inr ts2"
    and "\<forall>t \<in> set (ts1 @ ts2). \<exists>c. requests_get e (thumbnail_image_url t) = Inr c"
    and "distinct (map weight ts1)"
    and "distinct (map weight ts2)"
  shows "check_templates e dirs [] (pre @ t1 # mid @ t2 # post) s =
           Inr (s\<lparr>errors := errors s @ concat (map (missing_examples dirs) (pre @ t1 # mid))
                    @ weight_msg t2 [title t1]
                    # concat (map (missing_examples dirs) (t2 # post))\<rparr>)
       \<and> filter is_weight_error
            (concat (map (missing_examples dirs) (pre @ t1 # mid))
             @ weight_msg t2 [title t1] # concat (map (missing_examples dirs) (t2 # post)))
           = [weight_msg t2 [title t1]]
       \<and> contains (title t2) (weight_msg t2 [title t1])
       \<and> contains (repr_str (title t1)) (weight_msg t2 [title t1])
       \<and> check_catalogs e dirs [n1, n2] s =
           Inr (s\<lparr>stdout := stdout s @ [''Working on '' @ n1, ''Working on '' @ n2],
                  errors := errors s @ concat (map (missing_examples dirs) ts1)
                            @ concat (map (missing_examples dirs) ts2)\<rparr>)
       \<and> filter is_weight_error
            (concat (map (missing_examples dirs) ts1) @ concat (map (missing_examples dirs) ts2))
           = []"
proof (intro conjI)
  show "check_templates e dirs [] (pre @ t1 # mid @ t2 # post) s =
           Inr (s\<lparr>errors := errors s @ concat (map (missing_examples dirs) (pre @ t1 # mid))
                    @ weight_msg t2 [title t1]
                    # concat (map (missing_examples dirs) (t2 # post))\<rparr>)"
    using assms(1-4) by (rule check_templates_one_collision)
  show "filter is_weight_error
            (concat (map (missing_examples dirs) (pre @ t1 # mid))
             @ weight_msg t2 [title t1] # concat (map (missing_examples dirs) (t2 # post)))
           = [weight_msg t2 [title t1]]"
    by (simp add: weight_msg_is_weight_error del: map_append)
  have "weight_msg t2 [title t1] =
          (''Weight ('' @ str_of_int (weight t2) @ '') for '' @ sq) @ title t2
          @ (sq @ '' is non-unique. It matches '' @ py_repr (JArr (map JStr [title t1])) @ ''.'')"
    by (simp add: weight_msg_def)
  then show "contains (title t2) (weight_msg t2 [title t1])"
    unfolding contains_iff by blast
  have "weight_msg t2 [title t1] =
          (''Weight ('' @ str_of_int (weight t2) @ '') for '' @ sq @ title t2 @ sq
             @ '' is non-unique. It matches ['') @ repr_str (title t1) @ ('']'' @ ''.'')"
    by (simp add: weight_msg_def)
  then show "contains (repr_str (title t1)) (weight_msg t2 [title t1])"
    unfolding contains_iff by blast
  have c1: "check_templates e dirs [] ts1 s1 =
              Inr (s1\<lparr>errors := errors s1 @ concat (map (missing_examples dirs) ts1)\<rparr>)" for s1
    using assms(7,8) by (intro check_templates_no_collision) auto
  have c2: "check_templates e dirs [] ts2 s2 =
              Inr (s2\<lparr>errors := errors s2 @ concat (map (missing_examples dirs) ts2)\<rparr>)" for s2
    using assms(7,9) by (intro check_templates_no_collision) auto
  show "check_catalogs e dirs [n1, n2] s =
           Inr (s\<lparr>stdout := stdout s @ [''Working on '' @ n1, ''Working on '' @ n2],
                  errors := errors s @ concat (map (missing_examples dirs) ts1)
                            @ concat (map (missing_examples dirs) ts2)\<rparr>)"
    by (simp add: assms(5,6) c1 c2 print_def)
  show "filter is_weight_error
            (concat (map (missing_examples dirs) ts1) @ concat (map (missing_examples dirs) ts2))
           = []"
    by simp
qed

text \<open>
  Claim C7 at the catalog of the templates \<^verbatim>\<open>Dask\<close> (weight 10), \<^verbatim>\<open>Pandas\<close> (20) and
  \<^verbatim>\<open>Dask on GPU\<close> (10), and at the two catalogs that hold the first two and the third.
\<close>

theorem equal_weights_one_error_per_catalog_witness:
  "weight gpu_template = weight dask_template
   \<and> check_templates two_catalogs_env [''dask''] []
        [dask_template, pandas_template, gpu_template] start
       = Inr (start\<lparr>errors := [weight_msg gpu_template [''Dask'']]\<rparr>)
   \<and> weight_msg gpu_template [''Dask'']
       = ''Weight (10) for '' @ sq @ ''Dask on GPU'' @ sq @ '' is non-unique. It matches [''
         @ sq @ ''Dask'' @ sq @ ''].''
   \<and> check_catalogs two_catalogs_env [''dask'']
        [''templates-hosted.json'', ''templates-enterprise.json''] start
       = Inr (start\<lparr>stdout := [''Working on templates-hosted.json'',
                                 ''Working on templates-enterprise.json'']\<rparr>)"
proof -
  have get: "requests_get two_catalogs_env url = Inr 200" for url
    by (simp add: two_catalogs_env_def example_env_def status_200_def)
  have h1: "\<forall>t \<in> set ([] @ dask_template # [pandas_template] @ gpu_template # []).
              \<exists>c. requests_get two_catalogs_env (thumbnail_image_url t) = Inr c"
    by (simp add: get)
  have h2: "distinct (map title ([] @ dask_template # [pandas_template] @ gpu_template # []))"
    by (simp add: dask_template_def pandas_template_def gpu_template_def)
  have h3: "distinct (map weight ([] @ dask_template # [pandas_template] @ []))"
    by (simp add: dask_template_def pandas_template_def)
  have h4: "weight gpu_template = weight dask_template"
    by (simp add: dask_template_def gpu_template_def)
  have h5: "templates_json two_catalogs_env ''templates-hosted.json''
              = Inr [dask_template, pandas_template]"
    by (simp add: two_catalogs_env_def example_env_def two_catalogs_def)
  have h6: "templates_json two_catalogs_env ''templates-enterprise.json'' = Inr [gpu_template]"
    by (simp add: two_catalogs_env_def example_env_def two_catalogs_def)
  have h7: "\<forall>t \<in> set ([dask_template, pandas_template] @ [gpu_template]).
              \<exists>c. requests_get two_catalogs_env (thumbnail_image_url t) = Inr c"
    by (simp add: get)
  have h8: "distinct (map weight [dask_template, pandas_template])"
    by (simp add: dask_template_def pandas_template_def)
  have h9: "distinct (map weight [gpu_template])"
    by simp
  have m1: "missing_examples [''dask''] dask_template = []"
    by code_simp
  have m2: "missing_examples [''dask''] pandas_template = []"
    by code_simp
  have m3: "missing_examples [''dask''] gpu_template = []"
    by code_simp
  have t: "title dask_template = ''Dask''"
    by (simp add: dask_template_def)
  have w: "weight_msg gpu_template [''Dask'']
       = ''Weight (10) for '' @ sq @ ''Dask on GPU'' @ sq @ '' is non-unique. It matches [''
         @ sq @ ''Dask'' @ sq @ ''].''"
    by code_simp
  note inst = equal_weights_one_error_per_catalog
         [where dirs = "[''dask'']" and s = start, OF h1 h2 h3 h4 h5 h6 h7 h8 h9]
  have r1: "start\<lparr>errors := errors start
               @ concat (map (missing_examples [''dask'']) ([] @ dask_template # [pandas_template]))
               @ weight_msg gpu_template [title dask_template]
               # concat (map (missing_examples [''dask'']) (gpu_template # []))\<rparr>
            = start\<lparr>errors := [weight_msg gpu_template [''Dask'']]\<rparr>"
    by (simp add: m1 m2 m3 t start_def)
  have r2: "start\<lparr>stdout := stdout start @ [''Working on '' @ ''templates-hosted.json'',
                                             ''Working on '' @ ''templates-enterprise.json''],
                   errors := errors start
                     @ concat (map (missing_examples [''dask'']) [dask_template, pandas_template])
                     @ concat (map (missing_examples [''dask'']) [gpu_template])\<rparr>
            = start\<lparr>stdout := [''Working on templates-hosted.json'',
                                  ''Working on templates-enterprise.json'']\<rparr>"
    by (simp add: m1 m2 m3 start_def)
  have l: "[] @ dask_template # [pandas_template] @ gpu_template # []
             = [dask_template, pandas_template, gpu_template]"
    by simp
  have a: "check_templates two_catalogs_env [''dask''] []
             [dask_template, pandas_template, gpu_template] start
           = Inr (start\<lparr>errors := [weight_msg gpu_template [''Dask'']]\<rparr>)"
    using inst [THEN conjunct1] unfolding r1 l .
  have b: "check_catalogs two_catalogs_env [''dask'']
             [''templates-hosted.json'', ''templates-enterprise.json''] start
           = Inr (start\<lparr>stdout := [''Working on templates-hosted.json'',
                                     ''Working on templates-enterprise.json'']\<rparr>)"
    using inst [THEN conjunct2, THEN conjunct2, THEN conjunct2, THEN conjunct2, THEN conjunct1]
    unfolding r2 .
  from h4 a w b show ?thesis by (intro conjI)
qed

section \<open>Properties of the loop over the example directories\<close>

text \<open>
  Claim C4, as amended. Take an example directory that reaches line 380 (its name passes,
  the recursive listing is not empty, the checks of its content end without an exception)
  and has no \<^verbatim>\<open>.saturn\<close> directory. The loop records the missing \<^verbatim>\<open>.saturn\<close> error and
  then the missing \<^verbatim>\<open>saturn.json\<close> error, and ends the pass: the recipe is not validated,
  the result depends neither on the schema nor on the instance-type options.
\<close>

theorem missing_saturn_dir_records_two_errors:
  assumes "DIRECTORY_REGEX (basename d)"
    and "full_dir = os_path_join (EXAMPLES_DIR e) d"
    and "glob_recursive (root e) full_dir \<noteq> []"
    and "check_contents e full_dir (glob_recursive (root e) full_dir)
           (print (''Working on directory '' @ sq @ d @ sq) s) = Inr s4"
    and "\<not> isdir (root e) (os_path_join full_dir SATURN_DIR_NAME)"
  shows "check_example e schema opts d s =
           Inr (add (saturn_json_msg (os_path_join full_dir SATURN_DIR_NAME))
                  (add (saturn_dir_msg full_dir) s4))"
proof -
  have "check_saturn e schema opts d full_dir s4 =
           Inr (add (saturn_json_msg (os_path_join full_dir SATURN_DIR_NAME))
                  (add (saturn_dir_msg full_dir) s4))"
    using assms(5) saturn_json_needs_saturn_dir [OF assms(5)]
    by (simp add: check_saturn_def Let_def)
  with assms(1,3,4) show ?thesis
    by (simp add: check_example_def Let_def assms(2) [symmetric])
qed

text \<open>
  The amended claim at a directory that holds a README and nothing else.
\<close>

theorem missing_saturn_dir_records_two_errors_witness:
  "\<not> isdir (root no_saturn_env) (os_path_join ''examples/dask'' SATURN_DIR_NAME)
   \<and> check_example no_saturn_env accept_any example_options ''dask'' start
       = Inr (add (saturn_json_msg (os_path_join ''examples/dask'' SATURN_DIR_NAME))
                (add (saturn_dir_msg ''examples/dask'')
                   (print (''Working on directory '' @ sq @ ''dask'' @ sq) start)))"
proof -
  have h1: "DIRECTORY_REGEX (basename ''dask'')"
    by code_simp
  have h2: "''examples/dask'' = os_path_join (EXAMPLES_DIR no_saturn_env) ''dask''"
    by code_simp
  have h3: "glob_recursive (root no_saturn_env) ''examples/dask'' \<noteq> []"
    by code_simp
  have h4: "check_contents no_saturn_env ''examples/dask''
              (glob_recursive (root no_saturn_env) ''examples/dask'')
              (print (''Working on directory '' @ sq @ ''dask'' @ sq) start)
            = Inr (print (''Working on directory '' @ sq @ ''dask'' @ sq) start)"
    by code_simp
  have h5: "\<not> isdir (root no_saturn_env) (os_path_join ''examples/dask'' SATURN_DIR_NAME)"
    by code_simp
  from missing_saturn_dir_records_two_errors
         [where schema = accept_any and opts = example_options, OF h1 h2 h3 h4 h5] h5
  show ?thesis by simp
qed

text \<open>
  Claim C4 as stated fails: for a directory that holds a README and no \<^verbatim>\<open>.saturn\<close>, two
  errors are recorded, and the second is the missing \<^verbatim>\<open>saturn.json\<close> error.
\<close>

theorem missing_saturn_dir_counterexample:
  "isdir (root no_saturn_env) ''examples/dask''
   \<and> \<not> isdir (root no_saturn_env) ''examples/dask/.saturn''
   \<and> check_example no_saturn_env accept_any example_options ''dask'' start
       = Inr \<lparr>stdout = [''Working on directory '' @ sq @ ''dask'' @ sq],
              errors = [saturn_dir_msg ''examples/dask'',
                        saturn_json_msg ''examples/dask/.saturn'']\<rparr>"
  by code_simp

text \<open>
  Claim C5 fails on the code. For an empty directory whose name passes, the recursive
  listing holds the directory itself, so the test for an empty listing fails: no error
  says that the directory is empty, and the checks go on to record the missing README, the
  missing \<^verbatim>\<open>.saturn\<close> and the missing \<^verbatim>\<open>saturn.json\<close>.
\<close>

theorem empty_directory_not_reported:
  "resolve (root empty_dir_env) ''examples/dask'' = Some (Dir [])
   \<and> DIRECTORY_REGEX (basename ''dask'')
   \<and> glob_recursive (root empty_dir_env) ''examples/dask'' = [''examples/dask/'']
   \<and> check_example empty_dir_env accept_any example_options ''dask'' start
       = Inr \<lparr>stdout = [''Working on directory '' @ sq @ ''dask'' @ sq],
              errors = [readme_msg ''examples/dask'',
                        saturn_dir_msg ''examples/dask'',
                        saturn_json_msg ''examples/dask/.saturn'']\<rparr>
   \<and> empty_msg ''examples/dask''
       \<notin> set [readme_msg ''examples/dask'', saturn_dir_msg ''examples/dask'',
              saturn_json_msg ''examples/dask/.saturn'']"
  by code_simp

lemma check_examples_append:
  "check_examples e schema opts (pre @ rest) s =
     and_then (check_examples e schema opts pre s) (check_examples e schema opts rest)"
proof (induction pre arbitrary: s)
  case Nil
  show ?case by simp
next
  case (Cons d ds)
  show ?case
    by (cases "check_example e schema opts d s") (simp_all add: Cons.IH)
qed

text \<open>
  Claim C10. Take a run that reaches the recipe of the example directory \<open>d\<close>: the
  remote documents are fetched, the catalogs and the directories before \<open>d\<close> are checked
  without an exception, and the checks of \<open>d\<close> get as far as \<^verbatim>\<open>saturn.json\<close>. Let the recipe
  pass the schema and the name check, and let its \<^verbatim>\<open>image_uri\<close> not have exactly one
  \<^verbatim>\<open>:\<close>. Then \<open>validate_recipe\<close> raises \<^verbatim>\<open>ValueError\<close>, whatever \<^verbatim>\<open>--skip-image-check\<close> is;
  the loop does not catch it, and the run ends with this exception instead of a report.
\<close>

theorem bad_image_uri_aborts_run:
  assumes "recipe_schema e = Inr schema"
    and "instance_types e = Inr opts"
    and "listdir (root e) (EXAMPLES_DIR e) = Inr (pre @ d # rest)"
    and "check_catalogs e (pre @ d # rest) TEMPLATES_JSON_NAMES \<lparr>stdout = [], errors = []\<rparr> = Inr s2"
    and "check_examples e schema opts pre s2 = Inr s3"
    and "DIRECTORY_REGEX (basename d)"
    and "full_dir = os_path_join (EXAMPLES_DIR e) d"
    and "glob_recursive (root e) full_dir \<noteq> []"
    and "check_contents e full_dir (glob_recursive (root e) full_dir)
           (print (''Working on directory '' @ sq @ d @ sq) s3) = Inr s4"
    and "saturn_json = os_path_join (os_path_join full_dir SATURN_DIR_NAME) SATURN_JSON_NAME"
    and "load_json (root e) saturn_json = Inr recipe"
    and "schema recipe = None"
    and "check_name recipe = Inr ()"
    and "py_getitem recipe ''image_uri'' = Inr (JStr u)"
    and "count_list u CHR '':'' \<noteq> 1"
  shows "validate_recipe e schema opts saturn_json d = Inl ValueError
       \<and> check_example e schema opts d s3 = Inl ValueError
       \<and> main e = Inl ValueError"
proof -
  have v: "validate_recipe e schema opts saturn_json d = Inl ValueError"
    using assms(11-15) by (rule validate_recipe_bad_image_uri)
  have f: "isfile (root e) saturn_json"
    using assms(11) by (rule load_json_isfile)
  have cs: "check_saturn e schema opts d full_dir s4 = Inl ValueError"
    using v f unfolding assms(10) by (intro check_saturn_uncaught) simp_all
  have ce: "check_example e schema opts d s3 = Inl ValueError"
    using assms(6,8,9) cs
    by (simp add: check_example_def Let_def assms(7) [symmetric])
  have "check_examples e schema opts (pre @ d # rest) s2 = Inl ValueError"
    using assms(5) ce by (simp add: check_examples_append)
  then have "main e = Inl ValueError"
    using assms(1-4) by (simp add: main_def Let_def)
  with v ce show ?thesis by simp
qed

text \<open>
  Claim C10 at an image without a tag, with \<^verbatim>\<open>--skip-image-check\<close> set.
\<close>

theorem bad_image_uri_aborts_run_witness:
  "check_name untagged_recipe = Inr ()
   \<and> py_getitem untagged_recipe ''image_uri'' = Inr (JStr ''saturncloud/saturn'')
   \<and> count_list ''saturncloud/saturn'' CHR '':'' \<noteq> 1
   \<and> SKIP_IMAGE_CHECK untagged_env
   \<and> validate_recipe untagged_env accept_any example_options saturn_json_path ''dask''
       = Inl ValueError
   \<and> check_example untagged_env accept_any example_options ''dask''
        (start\<lparr>stdout := [''Working on templates-hosted.json'',
                            ''Working on templates-enterprise.json'']\<rparr>) = Inl ValueError
   \<and> main untagged_env = Inl ValueError"
proof -
  let ?s2 = "start\<lparr>stdout := [''Working on templates-hosted.json'',
                                ''Working on templates-enterprise.json'']\<rparr>"
  have h1: "recipe_schema untagged_env = Inr accept_any"
    by (simp add: untagged_env_def example_env_def)
  have h2: "instance_types untagged_env = Inr example_options"
    by (simp add: untagged_env_def example_env_def)
  have h3: "listdir (root untagged_env) (EXAMPLES_DIR untagged_env) = Inr ([] @ ''dask'' # [])"
    by code_simp
  have h4: "check_catalogs untagged_env ([] @ ''dask'' # []) TEMPLATES_JSON_NAMES
              \<lparr>stdout = [], errors = []\<rparr> = Inr ?s2"
    by code_simp
  have h5: "check_examples untagged_env accept_any example_options [] ?s2 = Inr ?s2"
    by simp
  have h6: "DIRECTORY_REGEX (basename ''dask'')"
    by code_simp
  have h7: "''examples/dask'' = os_path_join (EXAMPLES_DIR untagged_env) ''dask''"
    by code_simp
  have h8: "glob_recursive (root untagged_env) ''examples/dask'' \<noteq> []"
    by code_simp
  have h9: "check_contents untagged_env ''examples/dask''
              (glob_recursive (root untagged_env) ''examples/dask'')
              (print (''Working on directory '' @ sq @ ''dask'' @ sq) ?s2)
            = Inr (print (''Working on directory '' @ sq @ ''dask'' @ sq) ?s2)"
    by code_simp
  have h10: "saturn_json_path
              = os_path_join (os_path_join ''examples/dask'' SATURN_DIR_NAME) SATURN_JSON_NAME"
    by code_simp
  have h11: "load_json (root untagged_env) saturn_json_path = Inr untagged_recipe"
    by code_simp
  have h12: "accept_any untagged_recipe = None"
    by (simp add: accept_any_def)
  have h13: "check_name untagged_recipe = Inr ()"
    by code_simp
  have h14: "py_getitem untagged_recipe ''image_uri'' = Inr (JStr ''saturncloud/saturn'')"
    by code_simp
  have h15: "count_list ''saturncloud/saturn'' CHR '':'' \<noteq> 1"
    by code_simp
  have skip: "SKIP_IMAGE_CHECK untagged_env"
    by (simp add: untagged_env_def example_env_def)
  from bad_image_uri_aborts_run [where schema = accept_any,
         OF h1 h2 h3 h4 h5 h6 h7 h8 h9 h10 h11 h12 h13 h14 h15]
    h13 h14 h15 skip
  show ?thesis by blast
qed

end
